theory Spec2Isabelle
  imports Main "HOL-Library.Word"
begin

unbundle bit_operations_syntax

section \<open>Machine types\<close>

text \<open>
  \<^verbatim>\<open>fdisk.c\<close> computes with \<^verbatim>\<open>uint8_t\<close>, \<^verbatim>\<open>uint16_t\<close> and \<^verbatim>\<open>uint32_t\<close>; every
  operation below is the wrapping operation of the corresponding word type. Constant
  expressions of the source are written with their values:
  \<^verbatim>\<open>1024 * 1024 / 512\<close> is 2048, \<^verbatim>\<open>512 * 1024 / 512\<close> is 1024,
  \<^verbatim>\<open>2 * 1024 * (1024 * 1024 / 512)\<close> is 4194304 and \<^verbatim>\<open>512 / 4\<close> is 128.
\<close>

type_synonym u8 = "8 word"
type_synonym u16 = "16 word"
type_synonym u32 = "32 word"

section \<open>Partition planner (\<^verbatim>\<open>main\<close>, lines 743 to 790)\<close>

text \<open>Lines 743 to 746: half of the card after the first 2048 sectors, at most 2 GiB,
  rounded down to a 1 MiB boundary.\<close>

definition calc_sys_partition_sectors :: "u32 \<Rightarrow> u32" where
  "calc_sys_partition_sectors sdcard_sectors =
     (let s = drop_bit 1 (sdcard_sectors - 0x0800);
          s = (if s > 4194304 then 4194304 else s)
      in s AND 0xfffff800)"

text \<open>Line 747.\<close>

definition calc_fat_partition_sectors :: "u32 \<Rightarrow> u32" where
  "calc_fat_partition_sectors sdcard_sectors =
     sdcard_sectors - 0x800 - calc_sys_partition_sectors sdcard_sectors"

text \<open>The globals \<^verbatim>\<open>reserved_sectors\<close> and \<^verbatim>\<open>sectors_per_cluster\<close> (lines 285, 291).\<close>

definition reserved_sectors :: u32 where
  "reserved_sectors = 568"

definition sectors_per_cluster :: u32 where
  "sectors_per_cluster = 8"

text \<open>Lines 752 to 754 and again 766 to 768: sectors of one FAT for a cluster count.\<close>

definition calc_fat_sectors :: "u32 \<Rightarrow> u32" where
  "calc_fat_sectors c =
     (let f = c div 128 in if c mod 128 \<noteq> 0 then f + 1 else f)"

text \<open>Lines 755 and 769.\<close>

definition calc_sectors_required :: "u32 \<Rightarrow> u32 \<Rightarrow> u32" where
  "calc_sectors_required f c = 2 * f + (c - 2) * sectors_per_cluster"

text \<open>
  The loop of lines 756 to 770. Its state is the triple \<^verbatim>\<open>fs_clusters\<close>,
  \<^verbatim>\<open>fat_sectors\<close>, \<^verbatim>\<open>sectors_required\<close>; the first argument is
  \<^verbatim>\<open>fat_available_sectors\<close>. The source gives no bound on the number of rounds, so
  the loop is a partial function: \<open>None\<close> is a run that never leaves the loop.
\<close>

partial_function (option) fit_loop :: "u32 \<Rightarrow> u32 \<times> u32 \<times> u32 \<Rightarrow> (u32 \<times> u32 \<times> u32) option" where
  "fit_loop fat_available_sectors st =
     (case st of (c, f, sectors_required) \<Rightarrow>
        if sectors_required > fat_available_sectors then
          (let excess_sectors = sectors_required - fat_available_sectors;
               delta = excess_sectors div (1 + sectors_per_cluster);
               delta = (if delta < 1 then 1 else delta);
               c' = c - delta;
               f' = calc_fat_sectors c'
           in fit_loop fat_available_sectors (c', f', calc_sectors_required f' c'))
        else Some (c, f, sectors_required))"

record partition_plan =
  sys_partition_start :: u32
  sys_partition_sectors :: u32
  fat_partition_start :: u32
  fat_partition_sectors :: u32
  fs_clusters :: u32
  fat_sectors :: u32
  fat1_sector :: u32
  fat2_sector :: u32
  rootdir_sector :: u32
  fs_data_sectors :: u32

text \<open>Lines 743 to 790 as one function of the card size.\<close>

definition plan_partitions :: "u32 \<Rightarrow> partition_plan option" where
  "plan_partitions sdcard_sectors =
     (let sys_sectors = calc_sys_partition_sectors sdcard_sectors;
          fat_sectors0 = calc_fat_partition_sectors sdcard_sectors;
          fat_available_sectors = fat_sectors0 - reserved_sectors;
          c0 = fat_available_sectors div sectors_per_cluster;
          f0 = calc_fat_sectors c0
      in case fit_loop fat_available_sectors (c0, f0, calc_sectors_required f0 c0) of
           None \<Rightarrow> None
         | Some (c, f, r) \<Rightarrow>
             Some \<lparr> sys_partition_start = 0x00000800 + fat_sectors0,
                    sys_partition_sectors = sys_sectors,
                    fat_partition_start = 0x00000800,
                    fat_partition_sectors = fat_sectors0,
                    fs_clusters = c,
                    fat_sectors = f,
                    fat1_sector = reserved_sectors,
                    fat2_sector = reserved_sectors + f,
                    rootdir_sector = reserved_sectors + f + f,
                    fs_data_sectors = c * sectors_per_cluster \<rparr>)"

section \<open>Sector images\<close>

text \<open>The global \<^verbatim>\<open>uint8_t sector_buffer[512]\<close> is a list of bytes; every builder
  starts from \<^verbatim>\<open>clear_sector_buffer\<close> (lines 57 to 66) and stores at constant
  offsets below 512.\<close>

type_synonym sector = "u8 list"

definition clear_sector_buffer :: sector where
  "clear_sector_buffer = replicate 512 0"

text \<open>The store \<^verbatim>\<open>sector_buffer[..] = (value >> k) & 0xff\<close>.\<close>

definition shr_byte :: "u32 \<Rightarrow> nat \<Rightarrow> u8" where
  "shr_byte v k = ucast (drop_bit k v AND 0xff)"

text \<open>A loop \<^verbatim>\<open>for (i = 0; i < n; i++) sector_buffer[off + i] = src[i]\<close>, also the
  \<^verbatim>\<open>lcopy\<close> and \<^verbatim>\<open>bcopy\<close> calls into the buffer.\<close>

fun copy_into :: "u8 list \<Rightarrow> nat \<Rightarrow> sector \<Rightarrow> sector" where
  "copy_into [] off b = b"
| "copy_into (x # xs) off b = copy_into xs (Suc off) (b[off := x])"

text \<open>Reading four buffer bytes as one little-endian value, as \<^verbatim>\<open>show_partition_entry\<close>
  (lines 471 to 474) and the \<^verbatim>\<open>*(unsigned long *)&sector_buffer[..]\<close> reads of
  \<^verbatim>\<open>populate_file_system\<close> do on the little-endian target.\<close>

definition le32_at :: "sector \<Rightarrow> nat \<Rightarrow> u32" where
  "le32_at b off =
     ucast (b ! off) OR push_bit 8 (ucast (b ! (off + 1)))
       OR push_bit 16 (ucast (b ! (off + 2))) OR push_bit 24 (ucast (b ! (off + 3)))"

definition le16_at :: "sector \<Rightarrow> nat \<Rightarrow> u16" where
  "le16_at b off = ucast (b ! off) OR push_bit 8 (ucast (b ! (off + 1)))"

subsection \<open>\<^verbatim>\<open>build_mbr\<close> (lines 71 to 128)\<close>

definition build_mbr :: "u32 \<Rightarrow> u32 \<Rightarrow> u32 \<Rightarrow> u32 \<Rightarrow> sector" where
  "build_mbr sys_start sys_sectors fat_start fat_sectors_n =
     clear_sector_buffer
       [0x1b8 := 0x83, 0x1b9 := 0x7d, 0x1ba := 0xcb, 0x1bb := 0xa6,
        0x1d2 := 0x41,
        0x1d6 := shr_byte sys_start 0, 0x1d7 := shr_byte sys_start 8,
        0x1d8 := shr_byte sys_start 16, 0x1d9 := shr_byte sys_start 24,
        0x1da := shr_byte sys_sectors 0, 0x1db := shr_byte sys_sectors 8,
        0x1dc := shr_byte sys_sectors 16, 0x1dd := shr_byte sys_sectors 24,
        0x1c2 := 0x0c,
        0x1c6 := shr_byte fat_start 0, 0x1c7 := shr_byte fat_start 8,
        0x1c8 := shr_byte fat_start 16, 0x1c9 := shr_byte fat_start 24,
        0x1ca := shr_byte fat_sectors_n 0, 0x1cb := shr_byte fat_sectors_n 8,
        0x1cc := shr_byte fat_sectors_n 16, 0x1cd := shr_byte fat_sectors_n 24,
        0x1fe := 0x55, 0x1ff := 0xaa]"

subsection \<open>\<^verbatim>\<open>build_dosbootsector\<close> (lines 130 to 210)\<close>

text \<open>The table \<^verbatim>\<open>boot_bytes[258]\<close>: 257 initialisers, the last element is zero.\<close>

definition boot_bytes :: "u8 list" where
  "boot_bytes =
     [
      0xeb, 0x58, 0x90, 0x4d, 0x45, 0x47, 0x41, 0x36, 0x35, 0x72, 0x31, 0x00, 0x02, 0x08, 0x38, 0x02,
      0x02, 0x00, 0x00, 0x00, 0x00, 0xf8, 0x00, 0x00, 0x00, 0x00, 0x00, 0x00, 0x00, 0x00, 0x00, 0x00,
      0x00, 0xe8, 0x0f, 0x00, 0xf8, 0x03, 0x00, 0x00, 0x00, 0x00, 0x00, 0x00, 0x02, 0x00, 0x00, 0x00,
      0x01, 0x00, 0x06, 0x00, 0x00, 0x00, 0x00, 0x00, 0x00, 0x00, 0x00, 0x00, 0x00, 0x00, 0x00, 0x00,
      0x80, 0x00, 0x29, 0x6d, 0x66, 0x62, 0x61, 0x4d, 0x2e, 0x45, 0x2e, 0x47, 0x2e, 0x41, 0x2e, 0x20,
      0x36, 0x35, 0x46, 0x41, 0x54, 0x33, 0x32, 0x20, 0x20, 0x20, 0x0e, 0x1f, 0xbe, 0x77, 0x7c, 0xac,
      0x22, 0xc0, 0x74, 0x0b, 0x56, 0xb4, 0x0e, 0xbb, 0x07, 0x00, 0xcd, 0x10, 0x5e, 0xeb, 0xf0, 0x32,
      0xe4, 0xcd, 0x16, 0xcd, 0x19, 0xeb, 0xfe, 0x4d, 0x45, 0x47, 0x41, 0x36, 0x35, 0x20, 0x48, 0x59,
      0x50, 0x50, 0x4f, 0x42, 0x4f, 0x4f, 0x54, 0x20, 0x56, 0x30, 0x30, 0x2e, 0x31, 0x31, 0x0d, 0x0a,
      0x0d, 0x3f, 0x4e, 0x4f, 0x20, 0x34, 0x35, 0x47, 0x53, 0x30, 0x32, 0x2c, 0x20, 0x34, 0x35, 0x31,
      0x30, 0x2c, 0x20, 0x36, 0x35, 0x5b, 0x63, 0x65, 0x5d, 0x30, 0x32, 0x2c, 0x20, 0x36, 0x35, 0x31,
      0x30, 0x20, 0x4f, 0x52, 0x20, 0x38, 0x35, 0x31, 0x30, 0x20, 0x50, 0x52, 0x4f, 0x43, 0x45, 0x53,
      0x53, 0x4f, 0x52, 0x20, 0x20, 0x45, 0x52, 0x52, 0x4f, 0x52, 0x0d, 0x0a, 0x49, 0x4e, 0x53, 0x45,
      0x52, 0x54, 0x20, 0x44, 0x49, 0x53, 0x4b, 0x20, 0x49, 0x4e, 0x20, 0x52, 0x45, 0x41, 0x4c, 0x20,
      0x43, 0x4f, 0x4d, 0x50, 0x55, 0x54, 0x45, 0x52, 0x20, 0x41, 0x4e, 0x44, 0x20, 0x54, 0x52, 0x59,
      0x20, 0x41, 0x47, 0x41, 0x49, 0x4e, 0x2e, 0x0a, 0x0a, 0x52, 0x45, 0x41, 0x44, 0x59, 0x2e, 0x0d,
      0x0a,
      0x00]"

definition build_dosbootsector :: "u32 \<Rightarrow> u32 \<Rightarrow> sector" where
  "build_dosbootsector data_sectors fs_sectors_per_fat =
     (copy_into boot_bytes 0 clear_sector_buffer)
       [0x20 + 0 := shr_byte data_sectors (0 * 8), 0x20 + 1 := shr_byte data_sectors (1 * 8),
        0x20 + 2 := shr_byte data_sectors (2 * 8), 0x20 + 3 := shr_byte data_sectors (3 * 8),
        0x24 + 0 := shr_byte fs_sectors_per_fat (0 * 8),
        0x24 + 1 := shr_byte fs_sectors_per_fat (1 * 8),
        0x24 + 2 := shr_byte fs_sectors_per_fat (2 * 8),
        0x24 + 3 := shr_byte fs_sectors_per_fat (3 * 8),
        510 := 0x55, 511 := 0xaa]"

subsection \<open>\<^verbatim>\<open>build_fs_information_sector\<close> (lines 212 to 249)\<close>

definition build_fs_information_sector :: "u32 \<Rightarrow> sector" where
  "build_fs_information_sector fs_clusters_n =
     clear_sector_buffer
       [0 := 0x52, 1 := 0x52, 2 := 0x61, 3 := 0x41,
        0x1e4 := 0x72, 0x1e5 := 0x72, 0x1e6 := 0x41, 0x1e7 := 0x61,
        0x1e8 + 0 := shr_byte (fs_clusters_n - 3) (0 * 8),
        0x1e8 + 1 := shr_byte (fs_clusters_n - 3) (1 * 8),
        0x1e8 + 2 := shr_byte (fs_clusters_n - 3) (2 * 8),
        0x1e8 + 3 := shr_byte (fs_clusters_n - 3) (3 * 8),
        0x1ec := 0x02 + 1,
        510 := 0x55, 511 := 0xaa]"

subsection \<open>\<^verbatim>\<open>build_empty_fat\<close> and \<^verbatim>\<open>build_root_dir\<close> (lines 251 to 271)\<close>

definition fat_bytes :: "u8 list" where
  "fat_bytes = [0xf8, 0xff, 0xff, 0x0f, 0xff, 0xff, 0xff, 0x0f, 0xf8, 0xff, 0xff, 0x0f]"

definition build_empty_fat :: sector where
  "build_empty_fat = copy_into fat_bytes 0 clear_sector_buffer"

definition dir_bytes :: "u8 list" where
  "dir_bytes = [8, 0, 0, 0x53, 0xae, 0x93, 0x4a, 0x93, 0x4a, 0, 0, 0x53, 0xae, 0x93, 0x4a]"

text \<open>\<^verbatim>\<open>volume_name[11] = "M.E.G.A.65!"\<close> (line 292).\<close>

definition volume_name :: "u8 list" where
  "volume_name = [0x4d, 0x2e, 0x45, 0x2e, 0x47, 0x2e, 0x41, 0x2e, 0x36, 0x35, 0x21]"

definition build_root_dir :: "u8 list \<Rightarrow> sector" where
  "build_root_dir vname =
     copy_into dir_bytes 11 (copy_into (take 11 vname) 0 clear_sector_buffer)"

subsection \<open>\<^verbatim>\<open>build_mega65_sys_sector\<close> (lines 298 to 408)\<close>

definition sector_buffer_write_uint16 :: "nat \<Rightarrow> u32 \<Rightarrow> sector \<Rightarrow> sector" where
  "sector_buffer_write_uint16 offset v b =
     b[offset + 0 := shr_byte v 0, offset + 1 := shr_byte v 8]"

definition sector_buffer_write_uint32 :: "nat \<Rightarrow> u32 \<Rightarrow> sector \<Rightarrow> sector" where
  "sector_buffer_write_uint32 offset v b =
     b[offset + 0 := shr_byte v 0, offset + 1 := shr_byte v 8,
       offset + 2 := shr_byte v 16, offset + 3 := shr_byte v 24]"

text \<open>\<^verbatim>\<open>sys_part_magic\<close>: the characters of \<^verbatim>\<open>MEGA65SYS00\<close>.\<close>

definition sys_part_magic :: "u8 list" where
  "sys_part_magic = [0x4d, 0x45, 0x47, 0x41, 0x36, 0x35, 0x53, 0x59, 0x53, 0x30, 0x30]"

text \<open>Lines 346 to 355: the local \<^verbatim>\<open>slot_size\<close> is 1024 sectors, the local
  \<^verbatim>\<open>reserved_sectors\<close> is 2048 sectors; the subtraction and the division are
  \<^verbatim>\<open>uint32_t\<close> operations.\<close>

definition sys_slot_size :: u32 where
  "sys_slot_size = 1024"

definition sys_reserved_sectors :: u32 where
  "sys_reserved_sectors = 2048"

definition calc_slot_count :: "u32 \<Rightarrow> u32" where
  "calc_slot_count sys_sectors =
     (let slot_count = (sys_sectors - sys_reserved_sectors) div (sys_slot_size * 2 + 1)
      in if slot_count \<ge> 0xffff then 0xffff else slot_count)"

text \<open>Line 357: \<^verbatim>\<open>dir_size\<close> is a \<^verbatim>\<open>uint16_t\<close>.\<close>

definition calc_dir_size :: "u32 \<Rightarrow> u16" where
  "calc_dir_size slot_count = ucast (1 + (slot_count div 4))"

record sys_layout =
  sys_sector :: sector
  freeze_dir_sectors :: u16
  service_dir_sectors :: u16
  sys_partition_freeze_dir :: u32
  sys_partition_service_dir :: u32

text \<open>The first argument is the global \<^verbatim>\<open>sys_partition_start\<close> that lines 404 and
  405 add; the result holds the sector buffer and the four globals the function sets.\<close>

definition build_mega65_sys_sector :: "u32 \<Rightarrow> u32 \<Rightarrow> sys_layout" where
  "build_mega65_sys_sector sys_start sys_sectors =
     (let slot_count = calc_slot_count sys_sectors;
          dir_size = calc_dir_size slot_count;
          freeze_dir = sys_reserved_sectors;
          service_dir = freeze_dir + sys_slot_size * slot_count;
          b = copy_into sys_part_magic 0 clear_sector_buffer;
          b = sector_buffer_write_uint32 0x10 0 b;
          b = sector_buffer_write_uint32 0x14 (sys_slot_size * slot_count + ucast dir_size) b;
          b = sector_buffer_write_uint32 0x18 sys_slot_size b;
          b = sector_buffer_write_uint16 0x1c slot_count b;
          b = sector_buffer_write_uint16 0x1e (ucast dir_size) b;
          b = sector_buffer_write_uint32 0x20 (sys_slot_size * slot_count + ucast dir_size) b;
          b = sector_buffer_write_uint32 0x24 (sys_slot_size * slot_count + ucast dir_size) b;
          b = sector_buffer_write_uint32 0x28 sys_slot_size b;
          b = sector_buffer_write_uint16 0x2c slot_count b;
          b = sector_buffer_write_uint16 0x2e (ucast dir_size) b
      in \<lparr> sys_sector = b,
           freeze_dir_sectors = dir_size,
           service_dir_sectors = dir_size,
           sys_partition_freeze_dir = freeze_dir + sys_start,
           sys_partition_service_dir = service_dir + sys_start \<rparr>)"

subsection \<open>\<^verbatim>\<open>build_mega65_sys_config_sector\<close> (lines 410 to 450)\<close>

definition build_mega65_sys_config_sector :: sector where
  "build_mega65_sys_config_sector =
     (copy_into [0x6d, 0x65, 0x67, 0x61, 0x36, 0x35, 0x2e, 0x64, 0x38, 0x31] 0x10
        (clear_sector_buffer
           [0x000 := 0x01, 0x001 := 0x01, 0x002 := 0x80, 0x003 := 0x41, 0x004 := 0x00,
            0x005 := 0x01, 0x006 := 0x41, 0x007 := 0x41, 0x008 := 0x41, 0x009 := 0x41,
            0x00A := 0x41, 0x00B := 0x41]))
       [0x020 := 0x01]"

section \<open>Formatting sequence (\<^verbatim>\<open>main\<close>, lines 900 to 995)\<close>

text \<open>The calls into the storage driver, in the order in which \<^verbatim>\<open>main\<close> makes them
  once the confirmation loop is left: \<^verbatim>\<open>sdcard_readsector\<close>, \<^verbatim>\<open>sdcard_writesector\<close>
  (which writes the sector buffer, recorded here with its content) and
  \<^verbatim>\<open>sdcard_erase\<close> with its first and last sector.\<close>

datatype sd_op =
    Sdcard_readsector u32
  | Sdcard_writesector u32 sector
  | Sdcard_erase u32 u32

definition format_card :: "partition_plan \<Rightarrow> sd_op list" where
  "format_card p =
     (let sys_start = sys_partition_start p;
          fat_start = fat_partition_start p;
          lay = build_mega65_sys_sector sys_start (sys_partition_sectors p)
      in [ Sdcard_writesector 0
             (build_mbr sys_start (sys_partition_sectors p) fat_start (fat_partition_sectors p)),
           Sdcard_readsector 0,
           Sdcard_writesector sys_start (sys_sector lay),
           Sdcard_writesector (sys_start + 1) build_mega65_sys_config_sector,
           Sdcard_erase (sys_start + 2) (sys_start + 1023),
           Sdcard_erase (sys_partition_freeze_dir lay)
             (sys_partition_freeze_dir lay + ucast (freeze_dir_sectors lay) - 1),
           Sdcard_erase (sys_partition_service_dir lay)
             (sys_partition_service_dir lay + ucast (service_dir_sectors lay) - 1),
           Sdcard_writesector fat_start
             (build_dosbootsector (fat_partition_sectors p) (fat_sectors p)),
           Sdcard_writesector (fat_start + 6)
             (build_dosbootsector (fat_partition_sectors p) (fat_sectors p)),
           Sdcard_writesector (fat_start + 1) (build_fs_information_sector (fs_clusters p)),
           Sdcard_writesector (fat_start + 7) (build_fs_information_sector (fs_clusters p)),
           Sdcard_writesector (fat_start + fat1_sector p) build_empty_fat,
           Sdcard_writesector (fat_start + fat2_sector p) build_empty_fat,
           Sdcard_writesector (fat_start + rootdir_sector p) (build_root_dir volume_name),
           Sdcard_erase (fat_start + 1 + 1) (fat_start + 6 - 1),
           Sdcard_erase (fat_start + 6 + 1) (fat_start + fat1_sector p - 1),
           Sdcard_erase (fat_start + fat1_sector p + 1) (fat_start + fat2_sector p - 1),
           Sdcard_erase (fat_start + fat2_sector p + 1) (fat_start + rootdir_sector p - 1),
           Sdcard_erase (fat_start + rootdir_sector p + 1)
             (fat_start + rootdir_sector p + 1 + sectors_per_cluster - 1) ])"

text \<open>Lines 743 to 995: the planner, then the formatting sequence. No path between the
  two leaves \<^verbatim>\<open>main\<close> on account of the computed geometry.\<close>

definition plan_and_format :: "u32 \<Rightarrow> sd_op list option" where
  "plan_and_format sdcard_sectors = map_option format_card (plan_partitions sdcard_sectors)"

section \<open>Populating the new volume (\<^verbatim>\<open>populate_file_system\<close>, lines 554 to 628)\<close>

record mega65slotT =
  version :: "u8 list"
  file_count :: u8
  file_offset :: u32

text \<open>What the function does to the outside: a flash sector read, a call of
  \<^verbatim>\<open>fat32_create_contiguous_file\<close> with its five arguments, a write of the sector
  buffer to the card, and the line \<^verbatim>\<open>!! Error writing file\<close>.\<close>

datatype pop_event =
    Flash_readsector u32
  | Create_contiguous_file "u8 list" u32 u32 u32 u32
  | Write_file_sector u32
  | Error_writing_file

text \<open>The state the loop of line 572 carries: the global \<^verbatim>\<open>file_offset\<close>, the flag
  \<^verbatim>\<open>have_rom\<close>, the events so far, and the state of the allocator, whose code is not
  part of \<^verbatim>\<open>fdisk.c\<close>.\<close>

record 'a pop_state =
  cur_file_offset :: u32
  have_rom :: bool
  events :: "pop_event list"
  alloc_state :: 'a

text \<open>Lines 583 to 594. \<^verbatim>\<open>eightthree\<close> holds eleven blanks (its twelfth byte is the
  terminating zero); the name is the bytes before the first zero of the header.\<close>

fun eightthree_loop :: "u8 list \<Rightarrow> nat \<Rightarrow> u8 list \<Rightarrow> u8 list" where
  "eightthree_loop [] k e = e"
| "eightthree_loop (ch # rest) k e =
     (if ch = 0x2e then eightthree_loop rest 8 e
      else if Suc k \<ge> 11 then e[k := ch]
      else eightthree_loop rest (Suc k) (e[k := ch]))"

definition make_eightthree :: "u8 list \<Rightarrow> u8 list" where
  "make_eightthree name = eightthree_loop name 0 (replicate 11 0x20)"

text \<open>Lines 608 to 612, with \<^verbatim>\<open>addr\<close> and \<^verbatim>\<open>first_sector\<close> of type
  \<^verbatim>\<open>unsigned long\<close> (32 bits on the target). \<open>None\<close> is a loop that never ends.\<close>

partial_function (option) write_file_sectors ::
    "u32 \<Rightarrow> u32 \<Rightarrow> u32 \<Rightarrow> u32 \<Rightarrow> pop_event list \<Rightarrow> (u32 \<times> pop_event list) option" where
  "write_file_sectors file_off file_len addr first_sector evs =
     (if addr \<le> file_len then
        write_file_sectors file_off file_len (addr + 512) (first_sector + 1)
          (evs @ [Flash_readsector (file_off + addr), Write_file_sector first_sector])
      else Some (first_sector, evs))"

text \<open>The string \<^verbatim>\<open>MEGA65.ROM\<close> of line 596.\<close>

definition mega65_rom_name :: "u8 list" where
  "mega65_rom_name = [0x4d, 0x45, 0x47, 0x41, 0x36, 0x35, 0x2e, 0x52, 0x4f, 0x4d]"

text \<open>
  One round of the loop of line 572. The parameters are the allocator (from the
  allocator state, the name, the length and the three sector numbers to the returned
  first sector and the new allocator state; 0 is failure), the flash (the sector a
  \<^verbatim>\<open>flash_readsector\<close> of an offset puts into the sector buffer), the plan, the
  global \<^verbatim>\<open>slot_size\<close> and the slot number. The loops of lines 577 and 587 run
  with an 8-bit index until they meet a zero byte, so a header without a zero in bytes
  8 to 263 never leaves line 577.
\<close>

definition populate_one ::
    "('a \<Rightarrow> u8 list \<Rightarrow> u32 \<Rightarrow> u32 \<Rightarrow> u32 \<Rightarrow> u32 \<Rightarrow> u32 \<times> 'a) \<Rightarrow> (u32 \<Rightarrow> sector) \<Rightarrow>
     partition_plan \<Rightarrow> u32 \<Rightarrow> u8 \<Rightarrow> 'a pop_state \<Rightarrow> 'a pop_state option" where
  "populate_one alloc flash p slot_size slot st =
     (let buf = flash (cur_file_offset st);
          next_offset = ucast slot * slot_size + le32_at buf 0;
          file_len = le32_at buf 4
      in if 0 \<notin> set (take 256 (drop 8 buf)) then None
         else
           (let name = takeWhile (\<lambda>ch. ch \<noteq> 0) (drop 8 buf);
                eightthree = make_eightthree name;
                rom = (if name = mega65_rom_name then True else have_rom st);
                file_off = cur_file_offset st + (4 + 4 + 32);
                rootdir = fat_partition_start p + rootdir_sector p;
                fat1 = fat_partition_start p + fat1_sector p;
                fat2 = fat_partition_start p + fat2_sector p;
                (first_sector, a) = alloc (alloc_state st) eightthree file_len rootdir fat1 fat2;
                evs = events st @ [Flash_readsector (cur_file_offset st),
                        Create_contiguous_file eightthree file_len rootdir fat1 fat2]
            in if first_sector \<noteq> 0 then
                 (case write_file_sectors file_off file_len 0 first_sector evs of
                    None \<Rightarrow> None
                  | Some (fs, evs') \<Rightarrow>
                      Some \<lparr> cur_file_offset = next_offset, have_rom = rom, events = evs',
                             alloc_state = a \<rparr>)
               else
                 Some \<lparr> cur_file_offset = next_offset, have_rom = rom,
                        events = evs @ [Error_writing_file], alloc_state = a \<rparr>))"

text \<open>The loop of line 572 runs \<^verbatim>\<open>file_count\<close> times.\<close>

fun populate_loop ::
    "('a \<Rightarrow> u8 list \<Rightarrow> u32 \<Rightarrow> u32 \<Rightarrow> u32 \<Rightarrow> u32 \<Rightarrow> u32 \<times> 'a) \<Rightarrow> (u32 \<Rightarrow> sector) \<Rightarrow>
     partition_plan \<Rightarrow> u32 \<Rightarrow> u8 \<Rightarrow> nat \<Rightarrow> 'a pop_state \<Rightarrow> 'a pop_state option" where
  "populate_loop alloc flash p slot_size slot 0 st = Some st"
| "populate_loop alloc flash p slot_size slot (Suc n) st =
     (case populate_one alloc flash p slot_size slot st of
        None \<Rightarrow> None
      | Some st' \<Rightarrow> populate_loop alloc flash p slot_size slot n st')"

text \<open>The whole function: the returned \<^verbatim>\<open>char\<close> and the final state. \<^verbatim>\<open>version\<close> is
  the string in \<^verbatim>\<open>mega65slot[slot].version\<close>, empty when its first byte is zero.\<close>

definition populate_file_system ::
    "('a \<Rightarrow> u8 list \<Rightarrow> u32 \<Rightarrow> u32 \<Rightarrow> u32 \<Rightarrow> u32 \<Rightarrow> u32 \<times> 'a) \<Rightarrow> (u32 \<Rightarrow> sector) \<Rightarrow>
     partition_plan \<Rightarrow> u32 \<Rightarrow> mega65slotT \<Rightarrow> u8 \<Rightarrow> 'a pop_state \<Rightarrow> (u8 \<times> 'a pop_state) option" where
  "populate_file_system alloc flash p slot_size s slot st =
     (if version s = [] \<or> file_count s = 0 then Some (1, st)
      else
        (case populate_loop alloc flash p slot_size slot (unat (file_count s))
                (st \<lparr> cur_file_offset := file_offset s \<rparr>) of
           None \<Rightarrow> None
         | Some st' \<Rightarrow> Some (0, st')))"

section \<open>Partition sizes\<close>

lemma and_fffff800: "unat ((x::u32) AND 0xfffff800) = unat x div 2048 * 2048"
proof -
  have m: "(0xfffff800::u32) = NOT (mask 11)" by (simp add: mask_eq_exp_minus_1)
  have a: "x AND NOT (mask 11) = push_bit 11 (drop_bit 11 x)"
    by (rule bit_word_eqI) (auto simp add: bit_simps)
  let ?y = "drop_bit 11 x"
  have y: "unat ?y = unat x div 2048"
    by (simp add: unat_drop_bit_eq drop_bit_eq_div unat_div)
  have lt: "unat x < 2 ^ 32" using unsigned_less [of x] by simp
  have "unat ?y * unat (2048::u32) < 2 ^ LENGTH(32)" using y lt by simp
  then have "unat (?y * 2048) = unat ?y * unat (2048::u32)" by (simp only: unat_mult_lem)
  then have "unat (push_bit 11 ?y) = unat x div 2048 * 2048"
    using y by (simp add: push_bit_eq_mult)
  then show ?thesis unfolding m a .
qed

lemma calc_sys_unat:
  assumes "0x800 \<le> sdcard_sectors"
  shows "unat (calc_sys_partition_sectors sdcard_sectors)
         = min ((unat sdcard_sectors - 0x800) div 2) (2 * 1024 * 2048) div 2048 * 2048"
proof -
  have s: "unat (drop_bit 1 (sdcard_sectors - 0x800)) = (unat sdcard_sectors - 0x800) div 2"
    using assms by (simp add: unat_drop_bit_eq drop_bit_eq_div unat_div unat_sub)
  show ?thesis
    using s by (simp add: calc_sys_partition_sectors_def Let_def and_fffff800
        word_less_nat_alt min_def)
qed

lemma calc_sys_le:
  assumes "0x800 \<le> sdcard_sectors"
  shows "unat (calc_sys_partition_sectors sdcard_sectors) \<le> unat sdcard_sectors - 0x800"
proof -
  let ?m = "min ((unat sdcard_sectors - 0x800) div 2) (2 * 1024 * 2048)"
  have "?m div 2048 * 2048 \<le> ?m" by (rule div_times_less_eq_dividend)
  also have "?m \<le> (unat sdcard_sectors - 0x800) div 2" by (rule min.cobounded1)
  also have "\<dots> \<le> unat sdcard_sectors - 0x800" by (rule div_le_dividend)
  finally show ?thesis unfolding calc_sys_unat [OF assms] .
qed

lemma calc_fat_unat:
  assumes "0x800 \<le> sdcard_sectors"
  shows "unat (calc_fat_partition_sectors sdcard_sectors)
         = unat sdcard_sectors - 0x800 - unat (calc_sys_partition_sectors sdcard_sectors)"
proof -
  have a: "unat (sdcard_sectors - 0x800) = unat sdcard_sectors - 0x800"
    using assms by (simp add: unat_sub)
  have "unat (calc_sys_partition_sectors sdcard_sectors) \<le> unat sdcard_sectors - 0x800"
    by (rule calc_sys_le [OF assms])
  then have "calc_sys_partition_sectors sdcard_sectors \<le> sdcard_sectors - 0x800"
    using a by (simp add: word_le_nat_alt)
  then show ?thesis
    using a by (simp add: calc_fat_partition_sectors_def unat_sub)
qed

lemma plan_partitions_fields:
  assumes "plan_partitions sdcard_sectors = Some p"
  shows "sys_partition_sectors p = calc_sys_partition_sectors sdcard_sectors"
    and "fat_partition_sectors p = calc_fat_partition_sectors sdcard_sectors"
    and "fat_partition_start p = 0x800"
    and "sys_partition_start p = 0x800 + calc_fat_partition_sectors sdcard_sectors"
  using assms by (auto simp add: plan_partitions_def Let_def split: option.splits)

lemmas planner_eval =
  plan_partitions_def calc_sys_partition_sectors_def calc_fat_partition_sectors_def
  reserved_sectors_def sectors_per_cluster_def calc_fat_sectors_def
  calc_sectors_required_def Let_def fit_loop.simps

text \<open>The plan of a card of 15523840 sectors (about 7.4 GiB); the loop runs five times.\<close>

lemma plan_15523840:
  "plan_partitions 15523840 = Some
     \<lparr> sys_partition_start = 11329536, sys_partition_sectors = 4194304,
       fat_partition_start = 2048, fat_partition_sectors = 11327488,
       fs_clusters = 1413107, fat_sectors = 11040, fat1_sector = 568,
       fat2_sector = 11608, rootdir_sector = 22648, fs_data_sectors = 11304856 \<rparr>"
  by (simp add: planner_eval)

section \<open>Cluster fitting\<close>

text \<open>The quantities of the loop as unsigned numbers.\<close>

lemma mod128_word: "((c::u32) mod 128 \<noteq> 0) = (unat c mod 128 \<noteq> 0)"
proof -
  have "unat (c mod 128) = unat c mod 128" by (simp add: unat_mod)
  then show ?thesis by (metis unat_eq_0)
qed

lemma ceil128_bounds:
  fixes n :: nat
  shows "n \<le> 128 * ((n + 127) div 128)" and "128 * ((n + 127) div 128) \<le> n + 127"
proof -
  have "(n + 127) div 128 * 128 \<le> n + 127" by (rule div_times_less_eq_dividend)
  then show "128 * ((n + 127) div 128) \<le> n + 127" by (simp add: mult.commute)
  have "n + 127 < 128 + (n + 127) div 128 * 128"
    by (rule dividend_less_div_times) simp
  then show "n \<le> 128 * ((n + 127) div 128)" by (simp add: mult.commute)
qed

lemma ceil128:
  fixes n :: nat
  shows "(if n mod 128 \<noteq> 0 then n div 128 + 1 else n div 128) = (n + 127) div 128"
proof -
  define q r where "q = n div 128" and "r = n mod 128"
  have r: "r < 128" by (simp add: r_def)
  have "128 * q + r = n" by (simp add: q_def r_def)
  then have e: "(n + 127) div 128 = (128 * q + r + 127) div 128" by simp
  have "(if r \<noteq> 0 then q + 1 else q) = (128 * q + r + 127) div 128"
  proof (cases "r = 0")
    case True
    have "(128 * q + 127) div 128 = q" by (rule div_nat_eqI) simp_all
    then show ?thesis using True by simp
  next
    case False
    have "(128 * q + r + 127) div 128 = Suc q"
      by (rule div_nat_eqI) (use False r in simp_all)
    then show ?thesis using False by simp
  qed
  then show ?thesis unfolding e unfolding q_def r_def .
qed

lemma unat_calc_fat_sectors: "unat (calc_fat_sectors c) = (unat c + 127) div 128"
proof -
  have lt: "unat c < 2 ^ 32" using unsigned_less [of c] by simp
  have d: "unat (c div 128) = unat c div 128" by (simp add: unat_div)
  have "unat (c div 128) + unat (1::u32) < 2 ^ LENGTH(32)" using d lt by simp
  then have "unat (c div 128 + 1) = unat (c div 128) + unat (1::u32)"
    by (simp only: unat_add_lem)
  then have s: "unat (c div 128 + 1) = unat c div 128 + 1" using d by simp
  have "unat (calc_fat_sectors c)
        = (if unat c mod 128 \<noteq> 0 then unat c div 128 + 1 else unat c div 128)"
    unfolding calc_fat_sectors_def Let_def mod128_word using s d by simp
  then show ?thesis by (simp only: ceil128)
qed

lemma unat_calc_sectors_required:
  assumes c2: "2 \<le> unat c" and fit: "8 * unat c \<le> unat avail"
    and av: "unat avail \<le> 4286595055"
  shows "unat (calc_sectors_required (calc_fat_sectors c) c)
         = 2 * ((unat c + 127) div 128) + (unat c - 2) * 8"
proof -
  define F where "F = (unat c + 127) div 128"
  have F: "unat (calc_fat_sectors c) = F" by (simp add: F_def unat_calc_fat_sectors)
  have Fb: "128 * F \<le> unat c + 127" unfolding F_def by (rule ceil128_bounds)
  have cb: "unat c \<le> 535824381" using fit av by linarith
  have Fs: "F \<le> 4186128" using Fb cb by linarith
  have "(2::u32) \<le> c" using c2 by (simp add: word_le_nat_alt)
  then have m2: "unat (c - 2) = unat c - 2" by (simp add: unat_sub)
  have "unat (c - 2) * unat (8::u32) < 2 ^ LENGTH(32)" using m2 cb by simp
  then have "unat ((c - 2) * 8) = unat (c - 2) * unat (8::u32)" by (simp only: unat_mult_lem)
  then have t2: "unat ((c - 2) * 8) = (unat c - 2) * 8" using m2 by simp
  have "unat (2::u32) * unat (calc_fat_sectors c) < 2 ^ LENGTH(32)" using F Fs by simp
  then have "unat (2 * calc_fat_sectors c) = unat (2::u32) * unat (calc_fat_sectors c)"
    by (simp only: unat_mult_lem)
  then have t1: "unat (2 * calc_fat_sectors c) = 2 * F" using F by simp
  have "unat (2 * calc_fat_sectors c) + unat ((c - 2) * 8) < 2 ^ LENGTH(32)"
    using t1 t2 Fs cb c2 by simp
  then have "unat (2 * calc_fat_sectors c + (c - 2) * 8)
             = unat (2 * calc_fat_sectors c) + unat ((c - 2) * 8)"
    by (simp only: unat_add_lem)
  then show ?thesis
    using t1 t2 by (simp add: calc_sectors_required_def sectors_per_cluster_def F_def)
qed

text \<open>One round of the loop, in range: the cluster count goes down and stays above 2.\<close>

lemma fit_step:
  assumes c2: "2 \<le> unat c" and fit: "8 * unat c \<le> unat avail"
    and av: "unat avail \<le> 4286595055"
    and gt: "avail < calc_sectors_required (calc_fat_sectors c) c"
  defines "delta0 \<equiv>
    (calc_sectors_required (calc_fat_sectors c) c - avail) div (1 + sectors_per_cluster)"
  defines "delta \<equiv> (if delta0 < 1 then 1 else delta0)"
  shows "3 \<le> unat (c - delta) \<and> unat (c - delta) < unat c"
proof -
  define F where "F = (unat c + 127) div 128"
  define R where "R = 2 * F + (unat c - 2) * 8"
  have R: "unat (calc_sectors_required (calc_fat_sectors c) c) = R"
    unfolding R_def F_def by (rule unat_calc_sectors_required [OF c2 fit av])
  have Fb: "128 * F \<le> unat c + 127" unfolding F_def by (rule ceil128_bounds)
  have RA: "unat avail < R" using gt R by (simp add: word_less_nat_alt)
  have ex: "unat (calc_sectors_required (calc_fat_sectors c) c - avail) = R - unat avail"
    using gt R by (simp add: unat_sub less_imp_le)
  have d0: "unat delta0 = (R - unat avail) div 9"
    unfolding delta0_def using ex by (simp add: unat_div sectors_per_cluster_def)
  have "(R - unat avail) div 9 * 9 \<le> R - unat avail" by (rule div_times_less_eq_dividend)
  then have d0b: "9 * unat delta0 \<le> R - unat avail" using d0 by (simp add: mult.commute)
  have F9: "9 \<le> F" using RA fit c2 unfolding R_def by linarith
  have c1025: "1025 \<le> unat c" using F9 Fb by linarith
  have d0F: "unat delta0 \<le> F" using d0b RA fit c2 unfolding R_def by linarith
  have dl: "unat delta = (if unat delta0 < 1 then 1 else unat delta0)"
    unfolding delta_def by (simp add: word_less_nat_alt)
  have d1: "1 \<le> unat delta" and dF: "unat delta \<le> F"
    using dl d0F F9 by (simp_all split: if_splits)
  have dc: "unat delta + 3 \<le> unat c" using dF Fb c1025 by linarith
  then have "delta \<le> c" by (simp add: word_le_nat_alt)
  then have "unat (c - delta) = unat c - unat delta" by (simp add: unat_sub)
  then show ?thesis using dc d1 by simp
qed

text \<open>In range the loop ends, with at least as many clusters as it needs and no
  wrap-around.\<close>

lemma fit_loop_in_range:
  assumes av: "unat avail \<le> 4286595055"
  shows "2 \<le> unat c \<Longrightarrow> 8 * unat c \<le> unat avail \<Longrightarrow>
         \<exists>c'. fit_loop avail (c, calc_fat_sectors c, calc_sectors_required (calc_fat_sectors c) c)
                = Some (c', calc_fat_sectors c', calc_sectors_required (calc_fat_sectors c') c')
              \<and> 2 \<le> unat c' \<and> (3 \<le> unat c \<longrightarrow> 3 \<le> unat c')
              \<and> 8 * unat c' \<le> unat avail
              \<and> calc_sectors_required (calc_fat_sectors c') c' \<le> avail"
proof (induction "unat c" arbitrary: c rule: less_induct)
  case less
  show ?case
  proof (cases "avail < calc_sectors_required (calc_fat_sectors c) c")
    case False
    then have "fit_loop avail (c, calc_fat_sectors c, calc_sectors_required (calc_fat_sectors c) c)
               = Some (c, calc_fat_sectors c, calc_sectors_required (calc_fat_sectors c) c)"
      by (subst fit_loop.simps) simp
    then show ?thesis using False less.prems by (auto simp add: not_less)
  next
    case True
    define delta0 where
      "delta0 = (calc_sectors_required (calc_fat_sectors c) c - avail) div (1 + sectors_per_cluster)"
    define delta where "delta = (if delta0 < 1 then 1 else delta0)"
    have st: "3 \<le> unat (c - delta) \<and> unat (c - delta) < unat c"
      unfolding delta_def delta0_def by (rule fit_step [OF less.prems av True])
    then have fit': "8 * unat (c - delta) \<le> unat avail" using less.prems(2) by simp
    have c2': "2 \<le> unat (c - delta)" using st by simp
    have unf: "fit_loop avail (c, calc_fat_sectors c, calc_sectors_required (calc_fat_sectors c) c)
          = fit_loop avail (c - delta, calc_fat_sectors (c - delta),
               calc_sectors_required (calc_fat_sectors (c - delta)) (c - delta))"
      by (subst fit_loop.simps) (simp add: True Let_def delta_def delta0_def)
    from less.hyps [of "c - delta"] st c2' fit' show ?thesis unfolding unf by blast
  qed
qed

text \<open>Whenever the loop ends, its result is consistent and passes the loop test.\<close>

lemma fit_loop_post_aux:
  assumes run: "fit_loop avail st = Some y"
  shows "snd st = (calc_fat_sectors (fst st),
                   calc_sectors_required (calc_fat_sectors (fst st)) (fst st)) \<longrightarrow>
         snd y = (calc_fat_sectors (fst y),
                  calc_sectors_required (calc_fat_sectors (fst y)) (fst y))
         \<and> snd (snd y) \<le> avail"
proof (rule fit_loop.raw_induct [where P = "\<lambda>a s r.
         snd s = (calc_fat_sectors (fst s),
                  calc_sectors_required (calc_fat_sectors (fst s)) (fst s)) \<longrightarrow>
         snd r = (calc_fat_sectors (fst r),
                  calc_sectors_required (calc_fat_sectors (fst r)) (fst r))
         \<and> snd (snd r) \<le> a", OF _ run], goal_cases)
  case (1 g a s r)
  obtain c f q where s: "s = (c, f, q)" by (cases s)
  show ?case
  proof (cases "a < q")
    case True
    define delta0 where "delta0 = (q - a) div (1 + sectors_per_cluster)"
    define delta where "delta = (if delta0 < 1 then 1 else delta0)"
    let ?c = "c - delta"
    from 1(2) True s
    have "g a (?c, calc_fat_sectors ?c, calc_sectors_required (calc_fat_sectors ?c) ?c) = Some r"
      by (auto simp add: Let_def delta_def delta0_def split: if_splits)
    from 1(1) [OF this] show ?thesis by (cases r) auto
  next
    case False
    with 1(2) s show ?thesis by (auto simp add: not_less)
  qed
qed

lemma fit_loop_post:
  assumes "fit_loop avail (c, calc_fat_sectors c, calc_sectors_required (calc_fat_sectors c) c)
           = Some (c', f', r')"
  shows "f' = calc_fat_sectors c' \<and> r' = calc_sectors_required f' c' \<and> r' \<le> avail"
  using fit_loop_post_aux [OF assms] by auto

text \<open>The planner in range: cards of 2632 to \<open>0xFFC04A27\<close> sectors. On the next
  size the sum \<open>2 * fat_sectors + (fs_clusters - 2) * 8\<close> reaches \<open>2 ^ 32\<close>.\<close>

lemma calc_fat_le:
  assumes lo: "0x800 \<le> sdcard_sectors" and hi: "sdcard_sectors \<le> 0xFFC04A27"
  shows "unat (calc_fat_partition_sectors sdcard_sectors) \<le> 4286595623"
proof -
  have T: "unat sdcard_sectors \<le> 4290791975" using hi by (simp add: word_le_nat_alt)
  define h where "h = (unat sdcard_sectors - 0x800) div 2"
  define m where "m = min h (2 * 1024 * 2048)"
  have S: "unat (calc_sys_partition_sectors sdcard_sectors) = m div 2048 * 2048"
    unfolding m_def h_def by (rule calc_sys_unat [OF lo])
  have F: "unat (calc_fat_partition_sectors sdcard_sectors)
           = unat sdcard_sectors - 0x800 - m div 2048 * 2048"
    using calc_fat_unat [OF lo] S by simp
  show ?thesis
  proof (cases "4194304 \<le> h")
    case True
    then have "m = 4194304" by (simp add: m_def)
    then have "m div 2048 * 2048 = 4194304" by simp
    then show ?thesis using F T by simp
  next
    case False
    have "unat sdcard_sectors - 0x800 < 2 + h * 2"
      unfolding h_def by (rule dividend_less_div_times) simp
    then show ?thesis using F False by simp
  qed
qed

lemma calc_fat_ge:
  assumes lo: "0x800 + k \<le> unat sdcard_sectors" and k: "k \<le> 2048"
  shows "k \<le> unat (calc_fat_partition_sectors sdcard_sectors)"
proof -
  have le: "(0x800::u32) \<le> sdcard_sectors" using lo by (simp add: word_le_nat_alt)
  define h where "h = (unat sdcard_sectors - 0x800) div 2"
  define m where "m = min h (2 * 1024 * 2048)"
  have S: "unat (calc_sys_partition_sectors sdcard_sectors) = m div 2048 * 2048"
    unfolding m_def h_def by (rule calc_sys_unat [OF le])
  have F: "unat (calc_fat_partition_sectors sdcard_sectors)
           = unat sdcard_sectors - 0x800 - m div 2048 * 2048"
    using calc_fat_unat [OF le] S by simp
  have h2: "h * 2 \<le> unat sdcard_sectors - 0x800"
    unfolding h_def by (rule div_times_less_eq_dividend)
  have mh: "m \<le> h" unfolding m_def by simp
  have Sm: "m div 2048 * 2048 \<le> m" by (rule div_times_less_eq_dividend)
  show ?thesis
  proof (cases "m < 2048")
    case True
    then have "m div 2048 * 2048 = 0" by simp
    then show ?thesis using F lo by simp
  next
    case False
    then show ?thesis using F h2 mh Sm k by linarith
  qed
qed

lemma plan_in_range:
  assumes lo: "2632 \<le> sdcard_sectors" and hi: "sdcard_sectors \<le> 0xFFC04A27"
  shows "\<exists>p. plan_partitions sdcard_sectors = Some p
             \<and> 2 \<le> unat (fs_clusters p)
             \<and> (2640 \<le> sdcard_sectors \<longrightarrow> 3 \<le> unat (fs_clusters p))
             \<and> 568 \<le> unat (fat_partition_sectors p)
             \<and> 2 * unat (fat_sectors p) + (unat (fs_clusters p) - 2) * 8
                 \<le> unat (fat_partition_sectors p) - 568"
proof -
  define fat where "fat = calc_fat_partition_sectors sdcard_sectors"
  define avail where "avail = fat - reserved_sectors"
  define c0 where "c0 = avail div sectors_per_cluster"
  have T: "2632 \<le> unat sdcard_sectors" using lo by (simp add: word_le_nat_alt)
  have le: "(0x800::u32) \<le> sdcard_sectors" using lo by (simp add: word_le_nat_alt)
  have f584: "584 \<le> unat fat" unfolding fat_def by (rule calc_fat_ge) (use T in simp_all)
  have f592: "2640 \<le> sdcard_sectors \<Longrightarrow> 592 \<le> unat fat"
    unfolding fat_def by (rule calc_fat_ge) (simp_all add: word_le_nat_alt)
  have fhi: "unat fat \<le> 4286595623" unfolding fat_def by (rule calc_fat_le [OF le hi])
  have "(568::u32) \<le> fat" using f584 by (simp add: word_le_nat_alt)
  then have av: "unat avail = unat fat - 568"
    unfolding avail_def reserved_sectors_def by (simp add: unat_sub)
  have avhi: "unat avail \<le> 4286595055" using av fhi f584 by simp
  have c0: "unat c0 = unat avail div 8"
    unfolding c0_def sectors_per_cluster_def by (simp add: unat_div)
  have "unat avail div 8 * 8 \<le> unat avail" by (rule div_times_less_eq_dividend)
  then have fit: "8 * unat c0 \<le> unat avail" using c0 by simp
  have "16 \<le> unat avail" using av f584 by simp
  then have "16 div 8 \<le> unat avail div 8" by (rule div_le_mono)
  then have c2: "2 \<le> unat c0" using c0 by simp
  have c3: "3 \<le> unat c0" if "2640 \<le> sdcard_sectors"
  proof -
    have "24 \<le> unat avail" using av f592 [OF that] by simp
    then have "24 div 8 \<le> unat avail div 8" by (rule div_le_mono)
    then show ?thesis using c0 by simp
  qed
  from fit_loop_in_range [OF avhi c2 fit] obtain c' where
    run: "fit_loop avail (c0, calc_fat_sectors c0, calc_sectors_required (calc_fat_sectors c0) c0)
            = Some (c', calc_fat_sectors c', calc_sectors_required (calc_fat_sectors c') c')"
    and c'2: "2 \<le> unat c'" and c'3: "3 \<le> unat c0 \<longrightarrow> 3 \<le> unat c'"
    and fit': "8 * unat c' \<le> unat avail"
    and r': "calc_sectors_required (calc_fat_sectors c') c' \<le> avail"
    by blast
  from unat_calc_sectors_required [OF c'2 fit' avhi] r'
  have nat_le: "2 * ((unat c' + 127) div 128) + (unat c' - 2) * 8 \<le> unat avail"
    by (simp add: word_le_nat_alt)
  define p where "p = \<lparr> sys_partition_start = 0x00000800 + fat,
       sys_partition_sectors = calc_sys_partition_sectors sdcard_sectors,
       fat_partition_start = 0x00000800, fat_partition_sectors = fat,
       fs_clusters = c', fat_sectors = calc_fat_sectors c', fat1_sector = reserved_sectors,
       fat2_sector = reserved_sectors + calc_fat_sectors c',
       rootdir_sector = reserved_sectors + calc_fat_sectors c' + calc_fat_sectors c',
       fs_data_sectors = c' * sectors_per_cluster \<rparr>"
  have "plan_partitions sdcard_sectors = Some p"
    unfolding plan_partitions_def Let_def
    using run by (simp add: fat_def avail_def c0_def p_def)
  moreover have "2 \<le> unat (fs_clusters p)" using c'2 by (simp add: p_def)
  moreover have "2640 \<le> sdcard_sectors \<longrightarrow> 3 \<le> unat (fs_clusters p)"
    using c'3 c3 by (simp add: p_def)
  moreover have "568 \<le> unat (fat_partition_sectors p)" using f584 by (simp add: p_def)
  moreover have "2 * unat (fat_sectors p) + (unat (fs_clusters p) - 2) * 8
                 \<le> unat (fat_partition_sectors p) - 568"
    using nat_le av by (simp add: p_def unat_calc_fat_sectors)
  ultimately show ?thesis by blast
qed

lemma plan_partitions_post:
  assumes "plan_partitions sdcard_sectors = Some p"
  shows "fat_sectors p = calc_fat_sectors (fs_clusters p)"
    and "calc_sectors_required (fat_sectors p) (fs_clusters p)
         \<le> fat_partition_sectors p - reserved_sectors"
proof -
  define fat where "fat = calc_fat_partition_sectors sdcard_sectors"
  define avail where "avail = fat - reserved_sectors"
  define c0 where "c0 = avail div sectors_per_cluster"
  from assms obtain c f r where
    run: "fit_loop avail (c0, calc_fat_sectors c0, calc_sectors_required (calc_fat_sectors c0) c0)
          = Some (c, f, r)"
    and p: "fs_clusters p = c" "fat_sectors p = f" "fat_partition_sectors p = fat"
    unfolding plan_partitions_def Let_def fat_def avail_def c0_def
    by (auto split: option.splits)
  from fit_loop_post [OF run] p
  show "fat_sectors p = calc_fat_sectors (fs_clusters p)"
    and "calc_sectors_required (fat_sectors p) (fs_clusters p)
         \<le> fat_partition_sectors p - reserved_sectors"
    by (auto simp add: avail_def)
qed

text \<open>
  Claim C1. For every card of at least \<open>0x800\<close> sectors, the two partition sizes of
  lines 743 to 747, read as unsigned numbers, satisfy
  \<open>fat_partition_sectors + sys_partition_sectors + 0x800 = total_sectors\<close>, the system
  partition size is a multiple of 2048, and it is
  \<open>min ((total_sectors - 0x800) / 2) (2 * 1024 * 2048)\<close> rounded down to a multiple of
  2048. They are the sizes in every plan the planner returns, and for a card of 2632 to
  \<open>0xFFC04A27\<close> sectors the planner returns a plan.
\<close>

theorem partition_sizes:
  assumes "0x800 \<le> sdcard_sectors"
  shows "unat (calc_fat_partition_sectors sdcard_sectors)
           + unat (calc_sys_partition_sectors sdcard_sectors) + 0x800 = unat sdcard_sectors
       \<and> unat (calc_sys_partition_sectors sdcard_sectors) mod 2048 = 0
       \<and> unat (calc_sys_partition_sectors sdcard_sectors)
           = min ((unat sdcard_sectors - 0x800) div 2) (2 * 1024 * 2048) div 2048 * 2048
       \<and> (\<forall>p. plan_partitions sdcard_sectors = Some p \<longrightarrow>
              fat_partition_sectors p = calc_fat_partition_sectors sdcard_sectors
              \<and> sys_partition_sectors p = calc_sys_partition_sectors sdcard_sectors)
       \<and> (2632 \<le> sdcard_sectors \<and> sdcard_sectors \<le> 0xFFC04A27 \<longrightarrow>
              (\<exists>p. plan_partitions sdcard_sectors = Some p))"
proof -
  have le: "0x800 \<le> unat sdcard_sectors" using assms by (simp add: word_le_nat_alt)
  have s: "unat (calc_sys_partition_sectors sdcard_sectors) \<le> unat sdcard_sectors - 0x800"
    by (rule calc_sys_le [OF assms])
  have f: "unat (calc_fat_partition_sectors sdcard_sectors)
             = unat sdcard_sectors - 0x800 - unat (calc_sys_partition_sectors sdcard_sectors)"
    by (rule calc_fat_unat [OF assms])
  have sum: "unat (calc_fat_partition_sectors sdcard_sectors)
             + unat (calc_sys_partition_sectors sdcard_sectors) + 0x800 = unat sdcard_sectors"
    using le s f by arith
  have rnd: "unat (calc_sys_partition_sectors sdcard_sectors) mod 2048 = 0"
    unfolding calc_sys_unat [OF assms] by simp
  have fields: "\<forall>p. plan_partitions sdcard_sectors = Some p \<longrightarrow>
              fat_partition_sectors p = calc_fat_partition_sectors sdcard_sectors
              \<and> sys_partition_sectors p = calc_sys_partition_sectors sdcard_sectors"
    using plan_partitions_fields by blast
  have ex: "2632 \<le> sdcard_sectors \<and> sdcard_sectors \<le> 0xFFC04A27 \<longrightarrow>
              (\<exists>p. plan_partitions sdcard_sectors = Some p)"
    using plan_in_range [of sdcard_sectors] by blast
  from sum rnd calc_sys_unat [OF assms] fields ex show ?thesis by blast
qed

theorem partition_sizes_witness:
  "(0x800::u32) \<le> 15523840 \<and> (2632::u32) \<le> 15523840 \<and> (15523840::u32) \<le> 0xFFC04A27
   \<and> unat (calc_fat_partition_sectors 15523840) = 11327488
   \<and> unat (calc_sys_partition_sectors 15523840) = 4194304
   \<and> unat (calc_fat_partition_sectors 15523840)
       + unat (calc_sys_partition_sectors 15523840) + 0x800 = unat (15523840::u32)
   \<and> unat (calc_sys_partition_sectors 15523840) mod 2048 = 0
   \<and> (\<exists>p. plan_partitions 15523840 = Some p
        \<and> fat_partition_sectors p = calc_fat_partition_sectors 15523840
        \<and> sys_partition_sectors p = calc_sys_partition_sectors 15523840)"
proof -
  have h: "(0x800::u32) \<le> 15523840" by simp
  have r: "(2632::u32) \<le> 15523840 \<and> (15523840::u32) \<le> 0xFFC04A27" by simp
  have v: "unat (calc_fat_partition_sectors 15523840) = 11327488"
    "unat (calc_sys_partition_sectors 15523840) = 4194304"
    by (simp_all add: calc_fat_partition_sectors_def calc_sys_partition_sectors_def Let_def)
  from partition_sizes [OF h] h r v show ?thesis by auto
qed

text \<open>Out of range the numbers can fail the inequality although the loop test passes.
  A card of 2618 sectors leaves 570 sectors for the FAT partition, two more than the
  reserved sectors: the loop starts with no cluster at all, runs eleven times with a
  cluster count that has wrapped around, and ends with 3750770662 clusters. On a card of
  \<open>0xFFFFFFFF\<close> sectors the sum \<open>2 * fat_sectors + (fs_clusters - 2) * 8\<close> wraps
  around to 4183468 and the loop test passes at once.\<close>

lemma plan_2618:
  "plan_partitions 2618 = Some
     \<lparr> sys_partition_start = 2618, sys_partition_sectors = 0,
       fat_partition_start = 2048, fat_partition_sectors = 570,
       fs_clusters = 3750770662, fat_sectors = 29302896, fat1_sector = 568,
       fat2_sector = 29303464, rootdir_sector = 58606360, fs_data_sectors = 4236361520 \<rparr>"
  by (simp add: planner_eval)

lemma plan_4294967295:
  "plan_partitions 0xFFFFFFFF = Some
     \<lparr> sys_partition_start = 4290772991, sys_partition_sectors = 4194304,
       fat_partition_start = 2048, fat_partition_sectors = 4290770943,
       fs_clusters = 536346296, fat_sectors = 4190206, fat1_sector = 568,
       fat2_sector = 4190774, rootdir_sector = 8380980, fs_data_sectors = 4290770368 \<rparr>"
  by (simp add: planner_eval)

lemma sectors_required_wraps_4294967295:
  "calc_sectors_required 4190206 536346296 = 4183468"
  by (simp add: calc_sectors_required_def sectors_per_cluster_def)

text \<open>
  Claim C2, as stated, fails at both ends. On a card of 2618 sectors the loop ends, and
  the geometry of the returned plan has
  \<open>2 * fat_sectors + (fs_clusters - 2) * 8 = 30064771072\<close> where
  \<open>fat_partition_sectors - 568 = 2\<close>. On a card of \<open>0xFFFFFFFF\<close> sectors the loop is
  not entered, and the geometry has \<open>2 * fat_sectors + (fs_clusters - 2) * 8 = 4299150764\<close>
  where \<open>fat_partition_sectors - 568 = 4290770375\<close>.
\<close>

theorem cluster_fit_counterexample:
  "plan_partitions 2618 = Some
     \<lparr> sys_partition_start = 2618, sys_partition_sectors = 0,
       fat_partition_start = 2048, fat_partition_sectors = 570,
       fs_clusters = 3750770662, fat_sectors = 29302896, fat1_sector = 568,
       fat2_sector = 29303464, rootdir_sector = 58606360, fs_data_sectors = 4236361520 \<rparr>
   \<and> 2 * unat (29302896::u32) + (unat (3750770662::u32) - 2) * 8 = 30064771072
   \<and> unat (570::u32) - 568 = 2
   \<and> \<not> 2 * unat (29302896::u32) + (unat (3750770662::u32) - 2) * 8 \<le> unat (570::u32) - 568
   \<and> plan_partitions 0xFFFFFFFF = Some
     \<lparr> sys_partition_start = 4290772991, sys_partition_sectors = 4194304,
       fat_partition_start = 2048, fat_partition_sectors = 4290770943,
       fs_clusters = 536346296, fat_sectors = 4190206, fat1_sector = 568,
       fat2_sector = 4190774, rootdir_sector = 8380980, fs_data_sectors = 4290770368 \<rparr>
   \<and> 2 * unat (4190206::u32) + (unat (536346296::u32) - 2) * 8 = 4299150764
   \<and> unat (4290770943::u32) - 568 = 4290770375
   \<and> \<not> 2 * unat (4190206::u32) + (unat (536346296::u32) - 2) * 8
         \<le> unat (4290770943::u32) - 568"
  using plan_2618 plan_4294967295 by simp

text \<open>
  Claim C2, amended. Whenever the planner's loop ends, \<open>fat_sectors\<close> is
  \<open>fs_clusters / 128\<close> rounded up. For every card of 2632 to \<open>0xFFC04A27\<close> sectors
  the loop ends and the returned geometry satisfies
  \<open>2 * fat_sectors + (fs_clusters - 2) * 8 \<le> fat_partition_sectors - 568\<close> between the
  numbers, with at least 2 clusters and a partition of at least 568 sectors.
\<close>

theorem cluster_fit_postcondition:
  "(\<forall>p. plan_partitions sdcard_sectors = Some p \<longrightarrow>
        unat (fat_sectors p) = (unat (fs_clusters p) + 127) div 128)
   \<and> (2632 \<le> sdcard_sectors \<and> sdcard_sectors \<le> 0xFFC04A27 \<longrightarrow>
        (\<exists>p. plan_partitions sdcard_sectors = Some p
           \<and> 2 \<le> unat (fs_clusters p) \<and> 568 \<le> unat (fat_partition_sectors p)
           \<and> 2 * unat (fat_sectors p) + (unat (fs_clusters p) - 2) * 8
               \<le> unat (fat_partition_sectors p) - 568))"
proof (intro conjI allI impI)
  fix p assume "plan_partitions sdcard_sectors = Some p"
  then have "fat_sectors p = calc_fat_sectors (fs_clusters p)" by (rule plan_partitions_post)
  then show "unat (fat_sectors p) = (unat (fs_clusters p) + 127) div 128"
    by (simp add: unat_calc_fat_sectors)
next
  assume "2632 \<le> sdcard_sectors \<and> sdcard_sectors \<le> 0xFFC04A27"
  then show "\<exists>p. plan_partitions sdcard_sectors = Some p
           \<and> 2 \<le> unat (fs_clusters p) \<and> 568 \<le> unat (fat_partition_sectors p)
           \<and> 2 * unat (fat_sectors p) + (unat (fs_clusters p) - 2) * 8
               \<le> unat (fat_partition_sectors p) - 568"
    using plan_in_range [of sdcard_sectors] by blast
qed

theorem cluster_fit_postcondition_witness:
  "(2632::u32) \<le> 15523840 \<and> (15523840::u32) \<le> 0xFFC04A27
   \<and> (\<exists>p. plan_partitions 15523840 = Some p
        \<and> fs_clusters p = 1413107 \<and> fat_sectors p = 11040
        \<and> fat_partition_sectors p = 11327488
        \<and> unat (fat_sectors p) = (unat (fs_clusters p) + 127) div 128
        \<and> 2 * unat (fat_sectors p) + (unat (fs_clusters p) - 2) * 8
              \<le> unat (fat_partition_sectors p) - 568)"
proof -
  have h: "(2632::u32) \<le> 15523840 \<and> (15523840::u32) \<le> 0xFFC04A27" by simp
  from cluster_fit_postcondition [of 15523840] h plan_15523840
  show ?thesis by auto
qed

section \<open>Small cards\<close>

text \<open>The first driver call of the formatting sequence writes the MBR.\<close>

lemma hd_format_card:
  "hd (format_card p) = Sdcard_writesector 0
     (build_mbr (sys_partition_start p) (sys_partition_sectors p)
        (fat_partition_start p) (fat_partition_sectors p))"
  by (simp add: format_card_def Let_def)

text \<open>
  Claim C3, as stated, fails: on a card of 2618 sectors the cluster count is 0 before
  the loop, the first round takes 477218586 away from it, and the planner still returns
  a plan (with 3750770662 clusters, the wrapped-around count); the formatting sequence of
  that plan starts with the write of the MBR to sector 0.
\<close>

theorem capacity_check_counterexample:
  "(calc_fat_partition_sectors 2618 - reserved_sectors) div sectors_per_cluster = 0
   \<and> fit_loop 2 (0, 0, 4294967280) = Some (3750770662, 29302896, 0)
   \<and> plan_partitions 2618 = Some
        \<lparr> sys_partition_start = 2618, sys_partition_sectors = 0,
          fat_partition_start = 2048, fat_partition_sectors = 570,
          fs_clusters = 3750770662, fat_sectors = 29302896, fat1_sector = 568,
          fat2_sector = 29303464, rootdir_sector = 58606360, fs_data_sectors = 4236361520 \<rparr>
   \<and> map_option hd (plan_and_format 2618)
       = Some (Sdcard_writesector 0 (build_mbr 2618 0 2048 570))"
proof -
  have a: "(calc_fat_partition_sectors 2618 - reserved_sectors) div sectors_per_cluster = 0"
    by (simp add: planner_eval)
  have b: "fit_loop 2 (0, 0, 4294967280) = Some (3750770662, 29302896, 0)"
    by (simp add: planner_eval)
  have c: "map_option hd (plan_and_format 2618)
       = Some (Sdcard_writesector 0 (build_mbr 2618 0 2048 570))"
    by (simp add: plan_and_format_def plan_2618 hd_format_card)
  from a b plan_2618 c show ?thesis by blast
qed

text \<open>The planner returns nothing only when its loop never ends; whatever cluster count
  the loop ends with goes into the plan.\<close>

lemma plan_partitions_of_loop:
  assumes "fit_loop (calc_fat_partition_sectors sdcard_sectors - reserved_sectors)
             ((calc_fat_partition_sectors sdcard_sectors - reserved_sectors)
                div sectors_per_cluster,
              calc_fat_sectors ((calc_fat_partition_sectors sdcard_sectors - reserved_sectors)
                div sectors_per_cluster),
              calc_sectors_required
                (calc_fat_sectors ((calc_fat_partition_sectors sdcard_sectors - reserved_sectors)
                   div sectors_per_cluster))
                ((calc_fat_partition_sectors sdcard_sectors - reserved_sectors)
                   div sectors_per_cluster))
           = Some (c, f, r)"
  shows "\<exists>p. plan_partitions sdcard_sectors = Some p \<and> fs_clusters p = c \<and> fat_sectors p = f"
  using assms by (simp add: plan_partitions_def Let_def)

lemma plan_partitions_None:
  "plan_partitions sdcard_sectors = None \<longleftrightarrow>
   fit_loop (calc_fat_partition_sectors sdcard_sectors - reserved_sectors)
     ((calc_fat_partition_sectors sdcard_sectors - reserved_sectors) div sectors_per_cluster,
      calc_fat_sectors ((calc_fat_partition_sectors sdcard_sectors - reserved_sectors)
        div sectors_per_cluster),
      calc_sectors_required
        (calc_fat_sectors ((calc_fat_partition_sectors sdcard_sectors - reserved_sectors)
           div sectors_per_cluster))
        ((calc_fat_partition_sectors sdcard_sectors - reserved_sectors)
           div sectors_per_cluster))
   = None"
  by (simp add: plan_partitions_def Let_def split: option.splits)

text \<open>
  Claim C3, amended. The planner has no capacity check and no error result. Whenever the
  cluster-fitting loop ends, with whatever cluster count, the planner returns the plan with
  that count, and the formatting sequence of that plan follows and starts with the write
  of the MBR to sector 0; the planner returns nothing only when the loop never ends. For a
  card of 2640 to \<open>0xFFC04A27\<close> sectors the loop ends with at least three clusters.
\<close>

theorem no_capacity_check:
  fixes sdcard_sectors :: u32
  defines "avail \<equiv> calc_fat_partition_sectors sdcard_sectors - reserved_sectors"
  defines "c0 \<equiv> avail div sectors_per_cluster"
  shows "(\<forall>c f r.
            fit_loop avail
              (c0, calc_fat_sectors c0, calc_sectors_required (calc_fat_sectors c0) c0)
            = Some (c, f, r) \<longrightarrow>
            (\<exists>p. plan_partitions sdcard_sectors = Some p
               \<and> fs_clusters p = c \<and> fat_sectors p = f
               \<and> plan_and_format sdcard_sectors = Some (format_card p)
               \<and> hd (format_card p) = Sdcard_writesector 0
                    (build_mbr (sys_partition_start p) (sys_partition_sectors p)
                       (fat_partition_start p) (fat_partition_sectors p))))
       \<and> (plan_partitions sdcard_sectors = None \<longleftrightarrow>
            fit_loop avail
              (c0, calc_fat_sectors c0, calc_sectors_required (calc_fat_sectors c0) c0)
            = None)
       \<and> (2640 \<le> sdcard_sectors \<and> sdcard_sectors \<le> 0xFFC04A27 \<longrightarrow>
            (\<exists>p. plan_partitions sdcard_sectors = Some p \<and> 3 \<le> unat (fs_clusters p)))"
proof (intro conjI allI impI)
  fix c f r
  assume "fit_loop avail
            (c0, calc_fat_sectors c0, calc_sectors_required (calc_fat_sectors c0) c0)
          = Some (c, f, r)"
  then obtain p where p: "plan_partitions sdcard_sectors = Some p"
    and cf: "fs_clusters p = c" "fat_sectors p = f"
    unfolding avail_def c0_def using plan_partitions_of_loop by blast
  have "plan_and_format sdcard_sectors = Some (format_card p)"
    using p by (simp add: plan_and_format_def)
  with p cf hd_format_card [of p]
  show "\<exists>p. plan_partitions sdcard_sectors = Some p
               \<and> fs_clusters p = c \<and> fat_sectors p = f
               \<and> plan_and_format sdcard_sectors = Some (format_card p)
               \<and> hd (format_card p) = Sdcard_writesector 0
                    (build_mbr (sys_partition_start p) (sys_partition_sectors p)
                       (fat_partition_start p) (fat_partition_sectors p))"
    by blast
next
  show "plan_partitions sdcard_sectors = None \<longleftrightarrow>
        fit_loop avail
          (c0, calc_fat_sectors c0, calc_sectors_required (calc_fat_sectors c0) c0)
        = None"
    unfolding avail_def c0_def by (rule plan_partitions_None)
next
  assume r: "2640 \<le> sdcard_sectors \<and> sdcard_sectors \<le> 0xFFC04A27"
  then have "2632 \<le> sdcard_sectors" by (simp add: word_le_nat_alt)
  with r show "\<exists>p. plan_partitions sdcard_sectors = Some p \<and> 3 \<le> unat (fs_clusters p)"
    using plan_in_range [of sdcard_sectors] by blast
qed

theorem no_capacity_check_witness:
  "fit_loop 2 (0, 0, 4294967280) = Some (3750770662, 29302896, 0)
   \<and> (\<exists>p. plan_partitions 2618 = Some p
        \<and> fs_clusters p = 3750770662 \<and> fat_sectors p = 29302896
        \<and> plan_and_format 2618 = Some (format_card p)
        \<and> hd (format_card p) = Sdcard_writesector 0
             (build_mbr (sys_partition_start p) (sys_partition_sectors p)
                (fat_partition_start p) (fat_partition_sectors p)))
   \<and> (2640::u32) \<le> 15523840 \<and> (15523840::u32) \<le> 0xFFC04A27
   \<and> (\<exists>p. plan_partitions 15523840 = Some p \<and> 3 \<le> unat (fs_clusters p))"
proof -
  have run: "fit_loop 2 (0, 0, 4294967280) = Some (3750770662, 29302896, 0)"
    by (simp add: planner_eval)
  have args: "calc_fat_partition_sectors 2618 - reserved_sectors = 2"
    "(2::u32) div sectors_per_cluster = 0" "calc_fat_sectors 0 = 0"
    "calc_sectors_required 0 0 = 4294967280"
    by (simp_all add: planner_eval)
  have h: "(2640::u32) \<le> 15523840 \<and> (15523840::u32) \<le> 0xFFC04A27" by simp
  from no_capacity_check [of 2618] run
  have small: "\<exists>p. plan_partitions 2618 = Some p
        \<and> fs_clusters p = 3750770662 \<and> fat_sectors p = 29302896
        \<and> plan_and_format 2618 = Some (format_card p)
        \<and> hd (format_card p) = Sdcard_writesector 0
             (build_mbr (sys_partition_start p) (sys_partition_sectors p)
                (fat_partition_start p) (fat_partition_sectors p))"
    unfolding args by blast
  from no_capacity_check [of 15523840] h
  have "\<exists>p. plan_partitions 15523840 = Some p \<and> 3 \<le> unat (fs_clusters p)" by blast
  with run small h show ?thesis by blast
qed

section \<open>Sector contents\<close>

text \<open>The four bytes stored for a 32-bit value, read back little-endian, give the value.\<close>

lemma shr_byte_mask: "shr_byte v k = ucast (take_bit 8 (drop_bit k v))"
proof -
  have "(0xff::u32) = mask 8" by (simp add: mask_eq_exp_minus_1)
  then show ?thesis by (simp add: shr_byte_def take_bit_eq_mask)
qed

lemma le32_of_bytes:
  "ucast (shr_byte v 0) OR push_bit 8 (ucast (shr_byte v 8))
     OR push_bit 16 (ucast (shr_byte v 16)) OR push_bit 24 (ucast (shr_byte v 24)) = (v::u32)"
  unfolding shr_byte_mask
proof (rule bit_word_eqI)
  fix n assume n: "n < LENGTH(32)"
  consider "n < 8" | "8 \<le> n" "n < 16" | "16 \<le> n" "n < 24" | "24 \<le> n" by linarith
  then show "bit (ucast (ucast (take_bit 8 (drop_bit 0 v)) :: u8) OR
         push_bit 8 (ucast (ucast (take_bit 8 (drop_bit 8 v)) :: u8)) OR
         push_bit 16 (ucast (ucast (take_bit 8 (drop_bit 16 v)) :: u8)) OR
         push_bit 24 (ucast (ucast (take_bit 8 (drop_bit 24 v)) :: u8)) :: u32) n = bit v n"
    using n by cases (auto simp add: bit_simps)
qed

lemma le16_of_bytes:
  "ucast (shr_byte v 0) OR push_bit 8 (ucast (shr_byte v 8)) = (ucast (v::u32) :: u16)"
  unfolding shr_byte_mask
proof (rule bit_word_eqI)
  fix n assume n: "n < LENGTH(16)"
  consider "n < 8" | "8 \<le> n" by linarith
  then show "bit (ucast (ucast (take_bit 8 (drop_bit 0 v)) :: u8) OR
         push_bit 8 (ucast (ucast (take_bit 8 (drop_bit 8 v)) :: u8)) :: u16) n
           = bit (ucast v :: u16) n"
    using n by cases (auto simp add: bit_simps)
qed

text \<open>
  Claim C5. For all four arguments, the sector \<^verbatim>\<open>build_mbr\<close> leaves in the buffer has
  the disk signature \<open>83 7D CB A6\<close> at \<open>0x1B8\<close>; in entry 0 at \<open>0x1BE\<close> the type
  byte \<open>0x0C\<close> (offset \<open>0x1C2\<close>) and the start and size of the FAT partition as
  little-endian 32-bit values; in entry 1 at \<open>0x1CE\<close> the type byte \<open>0x41\<close> (offset
  \<open>0x1D2\<close>) and the start and size of the system partition; \<open>55 AA\<close> at \<open>0x1FE\<close>;
  and zero in every other byte.
\<close>

theorem mbr_image:
  "length (build_mbr sys_start sys_sectors fat_start fat_sectors_n) = 512
   \<and> map ((!) (build_mbr sys_start sys_sectors fat_start fat_sectors_n))
         [0x1b8, 0x1b9, 0x1ba, 0x1bb] = [0x83, 0x7d, 0xcb, 0xa6]
   \<and> build_mbr sys_start sys_sectors fat_start fat_sectors_n ! 0x1c2 = 0x0c
   \<and> le32_at (build_mbr sys_start sys_sectors fat_start fat_sectors_n) (0x1be + 8) = fat_start
   \<and> le32_at (build_mbr sys_start sys_sectors fat_start fat_sectors_n) (0x1be + 12)
       = fat_sectors_n
   \<and> build_mbr sys_start sys_sectors fat_start fat_sectors_n ! 0x1d2 = 0x41
   \<and> le32_at (build_mbr sys_start sys_sectors fat_start fat_sectors_n) (0x1ce + 8) = sys_start
   \<and> le32_at (build_mbr sys_start sys_sectors fat_start fat_sectors_n) (0x1ce + 12)
       = sys_sectors
   \<and> build_mbr sys_start sys_sectors fat_start fat_sectors_n ! 0x1fe = 0x55
   \<and> build_mbr sys_start sys_sectors fat_start fat_sectors_n ! 0x1ff = 0xaa
   \<and> (\<forall>i<512. i \<notin> {0x1b8..0x1bb} \<union> {0x1c2} \<union> {0x1c6..0x1cd} \<union> {0x1d2}
                      \<union> {0x1d6..0x1dd} \<union> {0x1fe, 0x1ff} \<longrightarrow>
          build_mbr sys_start sys_sectors fat_start fat_sectors_n ! i = 0)"
proof -
  let ?b = "build_mbr sys_start sys_sectors fat_start fat_sectors_n"
  have len: "length ?b = 512" by (simp add: build_mbr_def clear_sector_buffer_def)
  have sig: "map ((!) ?b) [0x1b8, 0x1b9, 0x1ba, 0x1bb] = [0x83, 0x7d, 0xcb, 0xa6]"
    by (simp add: build_mbr_def clear_sector_buffer_def)
  have t0: "?b ! 0x1c2 = 0x0c" by (simp add: build_mbr_def clear_sector_buffer_def)
  have t1: "?b ! 0x1d2 = 0x41" by (simp add: build_mbr_def clear_sector_buffer_def)
  have s0: "le32_at ?b (0x1be + 8) = fat_start"
    by (simp add: le32_at_def build_mbr_def clear_sector_buffer_def le32_of_bytes)
  have n0: "le32_at ?b (0x1be + 12) = fat_sectors_n"
    by (simp add: le32_at_def build_mbr_def clear_sector_buffer_def le32_of_bytes)
  have s1: "le32_at ?b (0x1ce + 8) = sys_start"
    by (simp add: le32_at_def build_mbr_def clear_sector_buffer_def le32_of_bytes)
  have n1: "le32_at ?b (0x1ce + 12) = sys_sectors"
    by (simp add: le32_at_def build_mbr_def clear_sector_buffer_def le32_of_bytes)
  have b0: "?b ! 0x1fe = 0x55" by (simp add: build_mbr_def clear_sector_buffer_def)
  have b1: "?b ! 0x1ff = 0xaa" by (simp add: build_mbr_def clear_sector_buffer_def)
  have rest: "\<forall>i<512. i \<notin> {0x1b8..0x1bb} \<union> {0x1c2} \<union> {0x1c6..0x1cd} \<union> {0x1d2}
                      \<union> {0x1d6..0x1dd} \<union> {0x1fe, 0x1ff} \<longrightarrow> ?b ! i = 0"
    by (auto simp add: build_mbr_def clear_sector_buffer_def nth_list_update)
  from len sig t0 s0 n0 t1 s1 n1 b0 b1 rest show ?thesis by blast
qed

theorem mbr_image_witness:
  "build_mbr 0x100000 0x200000 0x800 0xFFFFF ! 0x1c2 = 0x0c
   \<and> build_mbr 0x100000 0x200000 0x800 0xFFFFF ! 0x1d2 = 0x41
   \<and> build_mbr 0x100000 0x200000 0x800 0xFFFFF ! 0x1fe = 0x55
   \<and> build_mbr 0x100000 0x200000 0x800 0xFFFFF ! 0x1ff = 0xaa
   \<and> le32_at (build_mbr 0x100000 0x200000 0x800 0xFFFFF) 0x1c6 = 0x800
   \<and> le32_at (build_mbr 0x100000 0x200000 0x800 0xFFFFF) 0x1d6 = 0x100000
   \<and> (0::nat) < 512
   \<and> (0::nat) \<notin> {0x1b8..0x1bb} \<union> {0x1c2} \<union> {0x1c6..0x1cd} \<union> {0x1d2}
                      \<union> {0x1d6..0x1dd} \<union> {0x1fe, 0x1ff}
   \<and> build_mbr 0x100000 0x200000 0x800 0xFFFFF ! 0 = 0"
proof -
  have h: "(0::nat) < 512 \<and> (0::nat) \<notin> {0x1b8..0x1bb} \<union> {0x1c2} \<union> {0x1c6..0x1cd}
              \<union> {0x1d2} \<union> {0x1d6..0x1dd} \<union> {0x1fe, 0x1ff}" by simp
  from mbr_image [of "0x100000" "0x200000" "0x800" "0xFFFFF"] h show ?thesis by simp
qed

lemmas fsinfo_eval = build_fs_information_sector_def clear_sector_buffer_def

text \<open>
  Claim C7. For every cluster count of at least 3, the FS information sector holds
  \<open>fs_clusters - 3\<close> as a little-endian 32-bit value at \<open>0x1E8\<close>, the value 3 at
  \<open>0x1EC\<close>, the signature \<open>RRaA\<close> at offset 0, the signature \<open>rrAa\<close> at \<open>0x1E4\<close>
  and \<open>55 AA\<close> at offsets 510 and 511.
\<close>

theorem fs_information_sector_image:
  assumes "3 \<le> fs_clusters_n"
  shows "le32_at (build_fs_information_sector fs_clusters_n) 0x1e8 = fs_clusters_n - 3
       \<and> unat (le32_at (build_fs_information_sector fs_clusters_n) 0x1e8)
           = unat fs_clusters_n - 3
       \<and> le32_at (build_fs_information_sector fs_clusters_n) 0x1ec = 3
       \<and> map ((!) (build_fs_information_sector fs_clusters_n)) [0, 1, 2, 3]
           = [0x52, 0x52, 0x61, 0x41]
       \<and> map ((!) (build_fs_information_sector fs_clusters_n)) [0x1e4, 0x1e5, 0x1e6, 0x1e7]
           = [0x72, 0x72, 0x41, 0x61]
       \<and> build_fs_information_sector fs_clusters_n ! 510 = 0x55
       \<and> build_fs_information_sector fs_clusters_n ! 511 = 0xaa"
proof -
  let ?b = "build_fs_information_sector fs_clusters_n"
  have free: "le32_at ?b 0x1e8 = fs_clusters_n - 3"
    by (simp add: le32_at_def fsinfo_eval le32_of_bytes)
  have "unat (fs_clusters_n - 3) = unat fs_clusters_n - 3" using assms by (simp add: unat_sub)
  then have free_nat: "unat (le32_at ?b 0x1e8) = unat fs_clusters_n - 3" using free by simp
  have nxt: "le32_at ?b 0x1ec = 3" by (simp add: le32_at_def fsinfo_eval)
  have lead: "map ((!) ?b) [0, 1, 2, 3] = [0x52, 0x52, 0x61, 0x41]" by (simp add: fsinfo_eval)
  have struct: "map ((!) ?b) [0x1e4, 0x1e5, 0x1e6, 0x1e7] = [0x72, 0x72, 0x41, 0x61]"
    by (simp add: fsinfo_eval)
  have b0: "?b ! 510 = 0x55" by (simp add: fsinfo_eval)
  have b1: "?b ! 511 = 0xaa" by (simp add: fsinfo_eval)
  from free free_nat nxt lead struct b0 b1 show ?thesis by blast
qed

theorem fs_information_sector_image_witness:
  "(3::u32) \<le> 1000
   \<and> le32_at (build_fs_information_sector 1000) 0x1e8 = 997
   \<and> unat (le32_at (build_fs_information_sector 1000) 0x1e8) = 997
   \<and> le32_at (build_fs_information_sector 1000) 0x1ec = 3"
proof -
  have h: "(3::u32) \<le> 1000" by simp
  from fs_information_sector_image [OF h] h show ?thesis by simp
qed

section \<open>System partition layout\<close>

lemmas sys_sector_eval = build_mega65_sys_sector_def Let_def sector_buffer_write_uint32_def
  sector_buffer_write_uint16_def sys_part_magic_def clear_sector_buffer_def

lemma length_copy_into [simp]: "length (copy_into xs off b) = length b"
  by (induction xs arbitrary: off b) simp_all

lemma ucast_u16_u32_u16: "(ucast (ucast (x::u16) :: u32) :: u16) = x"
  by (rule bit_word_eqI) (simp add: bit_simps)

lemma calc_slot_count_unat:
  assumes "2048 \<le> sys_sectors"
  shows "unat (calc_slot_count sys_sectors) = min ((unat sys_sectors - 2048) div 2049) 65535"
proof -
  have "unat (sys_sectors - 2048) = unat sys_sectors - 2048" using assms by (simp add: unat_sub)
  then have "unat ((sys_sectors - 2048) div 2049) = (unat sys_sectors - 2048) div 2049"
    by (simp add: unat_div)
  then show ?thesis
    by (simp add: calc_slot_count_def Let_def sys_reserved_sectors_def sys_slot_size_def
        word_le_nat_alt min_def)
qed

lemma calc_slot_count_le: "unat (calc_slot_count sys_sectors) \<le> 65535"
  by (simp add: calc_slot_count_def Let_def word_le_nat_alt not_le word_less_nat_alt)

lemma calc_dir_size_unat:
  assumes "unat slot_count \<le> 65535"
  shows "unat (calc_dir_size slot_count) = 1 + unat slot_count div 4"
proof -
  have d: "unat (slot_count div 4) = unat slot_count div 4" by (simp add: unat_div)
  have "unat slot_count div 4 \<le> 65535 div 4" using assms by (rule div_le_mono)
  then have s: "unat slot_count div 4 \<le> 16383" by simp
  have "unat (1::u32) + unat (slot_count div 4) < 2 ^ LENGTH(32)" using d s by simp
  then have "unat (1 + slot_count div 4) = unat (1::u32) + unat (slot_count div 4)"
    by (simp only: unat_add_lem)
  then have a: "unat (1 + slot_count div 4) = 1 + unat slot_count div 4" using d by simp
  have "unat (ucast (1 + slot_count div 4) :: u16) = unat (1 + slot_count div 4)"
    using a s by (simp add: unsigned_ucast_eq take_bit_nat_eq_self)
  then show ?thesis using a by (simp add: calc_dir_size_def)
qed

text \<open>
  Claim C8. For every system partition of at least 2048 sectors the layout computation
  divides by the constants 2049 and 4 only, stores inside the 512 bytes of the buffer, and
  gives
  \<open>slot_count = min ((sys_partition_sectors - 2048) / 2049) 65535\<close> and
  \<open>dir_size = 1 + slot_count / 4\<close>, which are the values of the two directory sizes and
  of the header fields at \<open>0x1C\<close> and \<open>0x1E\<close>. A partition of 4096 sectors has no slot.
\<close>

theorem sys_layout_slots:
  assumes "2048 \<le> sys_sectors"
  shows "unat (sys_slot_size * 2 + 1) = 2049
       \<and> unat (calc_slot_count sys_sectors) = min ((unat sys_sectors - 2048) div 2049) 65535
       \<and> unat (calc_dir_size (calc_slot_count sys_sectors))
           = 1 + unat (calc_slot_count sys_sectors) div 4
       \<and> freeze_dir_sectors (build_mega65_sys_sector sys_start sys_sectors)
           = calc_dir_size (calc_slot_count sys_sectors)
       \<and> service_dir_sectors (build_mega65_sys_sector sys_start sys_sectors)
           = calc_dir_size (calc_slot_count sys_sectors)
       \<and> length (sys_sector (build_mega65_sys_sector sys_start sys_sectors)) = 512
       \<and> le16_at (sys_sector (build_mega65_sys_sector sys_start sys_sectors)) 0x1c
           = ucast (calc_slot_count sys_sectors)
       \<and> le16_at (sys_sector (build_mega65_sys_sector sys_start sys_sectors)) 0x1e
           = calc_dir_size (calc_slot_count sys_sectors)"
proof -
  let ?l = "build_mega65_sys_sector sys_start sys_sectors"
  have dv: "unat (sys_slot_size * 2 + 1) = 2049" by (simp add: sys_slot_size_def)
  note sc = calc_slot_count_unat [OF assms]
  note ds = calc_dir_size_unat [OF calc_slot_count_le [of sys_sectors]]
  have fd: "freeze_dir_sectors ?l = calc_dir_size (calc_slot_count sys_sectors)"
    by (simp add: build_mega65_sys_sector_def Let_def)
  have sd: "service_dir_sectors ?l = calc_dir_size (calc_slot_count sys_sectors)"
    by (simp add: build_mega65_sys_sector_def Let_def)
  have len: "length (sys_sector ?l) = 512" by (simp add: sys_sector_eval)
  have cnt: "le16_at (sys_sector ?l) 0x1c = ucast (calc_slot_count sys_sectors)"
    by (simp add: le16_at_def sys_sector_eval le16_of_bytes)
  have dir: "le16_at (sys_sector ?l) 0x1e = calc_dir_size (calc_slot_count sys_sectors)"
    by (simp add: le16_at_def sys_sector_eval le16_of_bytes ucast_u16_u32_u16)
  from dv sc ds fd sd len cnt dir show ?thesis by blast
qed

theorem sys_layout_slots_witness:
  "(2048::u32) \<le> 4096
   \<and> calc_slot_count 4096 = 0
   \<and> unat (calc_slot_count 4096) = min ((unat (4096::u32) - 2048) div 2049) 65535
   \<and> unat (calc_dir_size (calc_slot_count 4096)) = 1
   \<and> length (sys_sector (build_mega65_sys_sector 8192 4096)) = 512"
proof -
  have h: "(2048::u32) \<le> 4096" by simp
  have z: "calc_slot_count 4096 = 0"
    by (simp add: calc_slot_count_def Let_def sys_reserved_sectors_def sys_slot_size_def)
  from sys_layout_slots [OF h, of 8192] h z show ?thesis by simp
qed

lemma calc_slot_count_small:
  assumes "sys_sectors < 2048"
  shows "unat (sys_sectors - sys_reserved_sectors) = unat sys_sectors + 2 ^ 32 - 2048"
    and "calc_slot_count sys_sectors = 0xffff"
proof -
  have lt: "unat sys_sectors < 2048" using assms by (simp add: word_less_nat_alt)
  then show w: "unat (sys_sectors - sys_reserved_sectors) = unat sys_sectors + 2 ^ 32 - 2048"
    by (simp add: sys_reserved_sectors_def unat_sub_if_size word_size)
  have "(4294965248::nat) div 2049 \<le> (unat sys_sectors + 2 ^ 32 - 2048) div 2049"
    by (rule div_le_mono) simp
  then have "65535 \<le> unat ((sys_sectors - sys_reserved_sectors) div 2049)"
    using w by (simp add: unat_div)
  then have "0xffff \<le> (sys_sectors - sys_reserved_sectors) div 2049"
    by (simp add: word_le_nat_alt)
  then show "calc_slot_count sys_sectors = 0xffff"
    by (simp add: calc_slot_count_def Let_def sys_slot_size_def)
qed

text \<open>
  Claim C10. For every system partition of fewer than 2048 sectors the subtraction
  \<open>sys_partition_sectors - 2048\<close> wraps around modulo \<open>2 ^ 32\<close>, the slot count is the
  cap 65535, and the header gives both areas 67124224 sectors
  (\<open>1024 * 65535 + 16384\<close>), more than the partition has.
\<close>

theorem sys_layout_wraps:
  assumes "sys_sectors < 2048"
  shows "unat (sys_sectors - sys_reserved_sectors) = unat sys_sectors + 2 ^ 32 - 2048
       \<and> calc_slot_count sys_sectors = 65535
       \<and> le16_at (sys_sector (build_mega65_sys_sector sys_start sys_sectors)) 0x1c = 65535
       \<and> le16_at (sys_sector (build_mega65_sys_sector sys_start sys_sectors)) 0x2c = 65535
       \<and> le32_at (sys_sector (build_mega65_sys_sector sys_start sys_sectors)) 0x14 = 67124224
       \<and> le32_at (sys_sector (build_mega65_sys_sector sys_start sys_sectors)) 0x24 = 67124224
       \<and> unat sys_sectors
           < unat (le32_at (sys_sector (build_mega65_sys_sector sys_start sys_sectors)) 0x14)"
proof -
  let ?b = "sys_sector (build_mega65_sys_sector sys_start sys_sectors)"
  note w = calc_slot_count_small [OF assms]
  have ds: "calc_dir_size 0xffff = 16384" by (simp add: calc_dir_size_def)
  have c1: "le16_at ?b 0x1c = 65535"
    by (simp add: le16_at_def sys_sector_eval le16_of_bytes w(2))
  have c2: "le16_at ?b 0x2c = 65535"
    by (simp add: le16_at_def sys_sector_eval le16_of_bytes w(2))
  have s1: "le32_at ?b 0x14 = 67124224"
    by (simp add: le32_at_def sys_sector_eval le32_of_bytes w(2) ds sys_slot_size_def)
  have s2: "le32_at ?b 0x24 = 67124224"
    by (simp add: le32_at_def sys_sector_eval le32_of_bytes w(2) ds sys_slot_size_def)
  have "unat sys_sectors < 2048" using assms by (simp add: word_less_nat_alt)
  then have far: "unat sys_sectors < unat (le32_at ?b 0x14)" unfolding s1 by simp
  from w c1 c2 s1 s2 far show ?thesis by simp
qed

theorem sys_layout_wraps_witness:
  "(0::u32) < 2048
   \<and> calc_slot_count 0 = 65535
   \<and> le16_at (sys_sector (build_mega65_sys_sector 11329536 0)) 0x1c = 65535
   \<and> le32_at (sys_sector (build_mega65_sys_sector 11329536 0)) 0x14 = 67124224
   \<and> unat (0::u32) < unat (le32_at (sys_sector (build_mega65_sys_sector 11329536 0)) 0x14)"
proof -
  have h: "(0::u32) < 2048" by simp
  from sys_layout_wraps [OF h, of 11329536] h show ?thesis by simp
qed

text \<open>The two directory positions for every system partition.\<close>

lemma sys_directories:
  "sys_partition_freeze_dir (build_mega65_sys_sector sys_start sys_sectors) = 2048 + sys_start"
  "sys_partition_service_dir (build_mega65_sys_sector sys_start sys_sectors)
   = 2048 + 1024 * calc_slot_count sys_sectors + sys_start"
  by (simp_all add: build_mega65_sys_sector_def Let_def sys_reserved_sectors_def
      sys_slot_size_def)

text \<open>
  Claim C4, evaluated on the system partition of a card of 15523840 sectors (start
  11329536, 4194304 sectors, 2046 slots, directories of 512 sectors). The freeze directory
  is at relative offset 2048. The service directory is at relative offset
  \<open>2048 + 1024 * 2046\<close>, the directory size is not added; the header written by the
  same function puts the start of the service area at \<open>1024 * 2046 + 512\<close>, the size of
  the freeze area.
\<close>

theorem service_dir_at_15523840:
  "sys_partition_freeze_dir (build_mega65_sys_sector 11329536 4194304) = 11329536 + 2048
   \<and> calc_slot_count 4194304 = 2046
   \<and> freeze_dir_sectors (build_mega65_sys_sector 11329536 4194304) = 512
   \<and> sys_partition_service_dir (build_mega65_sys_sector 11329536 4194304)
       = 11329536 + 2048 + 1024 * 2046
   \<and> sys_partition_service_dir (build_mega65_sys_sector 11329536 4194304)
       \<noteq> 11329536 + 2048 + 512 + 1024 * 2046
   \<and> le32_at (sys_sector (build_mega65_sys_sector 11329536 4194304)) 0x14 = 1024 * 2046 + 512
   \<and> le32_at (sys_sector (build_mega65_sys_sector 11329536 4194304)) 0x20 = 1024 * 2046 + 512"
proof -
  have sc: "calc_slot_count 4194304 = 2046"
    by (simp add: calc_slot_count_def Let_def sys_reserved_sectors_def sys_slot_size_def)
  have ds: "calc_dir_size 2046 = 512" by (simp add: calc_dir_size_def)
  have a: "le32_at (sys_sector (build_mega65_sys_sector 11329536 4194304)) 0x14
           = 1024 * 2046 + 512"
    by (simp add: le32_at_def sys_sector_eval le32_of_bytes sc ds sys_slot_size_def)
  have b: "le32_at (sys_sector (build_mega65_sys_sector 11329536 4194304)) 0x20
           = 1024 * 2046 + 512"
    by (simp add: le32_at_def sys_sector_eval le32_of_bytes sc ds sys_slot_size_def)
  show ?thesis
    using a b sc
    by (simp add: build_mega65_sys_sector_def Let_def ds sys_reserved_sectors_def
        sys_slot_size_def)
qed

section \<open>The formatting sequence\<close>

text \<open>The sequence on the card of 15523840 sectors, with its sector numbers.\<close>

lemma format_card_15523840:
  "format_card
     \<lparr> sys_partition_start = 11329536, sys_partition_sectors = 4194304,
       fat_partition_start = 2048, fat_partition_sectors = 11327488,
       fs_clusters = 1413107, fat_sectors = 11040, fat1_sector = 568,
       fat2_sector = 11608, rootdir_sector = 22648, fs_data_sectors = 11304856 \<rparr>
   = [ Sdcard_writesector 0 (build_mbr 11329536 4194304 2048 11327488),
       Sdcard_readsector 0,
       Sdcard_writesector 11329536 (sys_sector (build_mega65_sys_sector 11329536 4194304)),
       Sdcard_writesector 11329537 build_mega65_sys_config_sector,
       Sdcard_erase 11329538 11330559,
       Sdcard_erase 11331584 11332095,
       Sdcard_erase 13426688 13427199,
       Sdcard_writesector 2048 (build_dosbootsector 11327488 11040),
       Sdcard_writesector 2054 (build_dosbootsector 11327488 11040),
       Sdcard_writesector 2049 (build_fs_information_sector 1413107),
       Sdcard_writesector 2055 (build_fs_information_sector 1413107),
       Sdcard_writesector 2616 build_empty_fat,
       Sdcard_writesector 13656 build_empty_fat,
       Sdcard_writesector 24696 (build_root_dir volume_name),
       Sdcard_erase 2050 2053,
       Sdcard_erase 2055 2615,
       Sdcard_erase 2617 13655,
       Sdcard_erase 13657 24695,
       Sdcard_erase 24697 24704 ]"
proof -
  have sc: "calc_slot_count 4194304 = 2046"
    by (simp add: calc_slot_count_def Let_def sys_reserved_sectors_def sys_slot_size_def)
  have ds: "calc_dir_size 2046 = 512" by (simp add: calc_dir_size_def)
  show ?thesis
    by (simp add: format_card_def Let_def build_mega65_sys_sector_def sc ds
        sys_reserved_sectors_def sys_slot_size_def sectors_per_cluster_def)
qed

text \<open>
  Claim C6. For every plan, the driver calls of the formatting sequence, in order, with the
  sector numbers the code passes: the MBR to sector 0 (and the read of sector 0 by
  \<^verbatim>\<open>show_mbr\<close>); the header sector of the system partition; its configuration
  sector; the erase of sectors 2 to 1023 of the system partition, which the code calls
  the rest of the 1 MiB reserved area (that area ends at sector 2047); the erase of the
  freeze directory; the erase of the service directory; the boot sector and its copy at
  sector 6 of the FAT partition; the FS information sector and its copy at sector 7; the
  two FATs; the root directory; then five erases: sectors 2 to 5, sectors 7 (the copy of
  the FS information sector just written) to \<open>fat1_sector - 1\<close>, the rest of the first
  FAT, the rest of the second FAT, and the eight sectors after the root directory sector.
\<close>

theorem format_card_sequence:
  "format_card p =
     [ Sdcard_writesector 0
         (build_mbr (sys_partition_start p) (sys_partition_sectors p)
            (fat_partition_start p) (fat_partition_sectors p)),
       Sdcard_readsector 0,
       Sdcard_writesector (sys_partition_start p)
         (sys_sector (build_mega65_sys_sector (sys_partition_start p) (sys_partition_sectors p))),
       Sdcard_writesector (sys_partition_start p + 1) build_mega65_sys_config_sector,
       Sdcard_erase (sys_partition_start p + 2) (sys_partition_start p + 1023),
       Sdcard_erase (sys_partition_start p + 2048)
         (sys_partition_start p + 2048
            + ucast (calc_dir_size (calc_slot_count (sys_partition_sectors p))) - 1),
       Sdcard_erase
         (sys_partition_start p + 2048 + 1024 * calc_slot_count (sys_partition_sectors p))
         (sys_partition_start p + 2048 + 1024 * calc_slot_count (sys_partition_sectors p)
            + ucast (calc_dir_size (calc_slot_count (sys_partition_sectors p))) - 1),
       Sdcard_writesector (fat_partition_start p)
         (build_dosbootsector (fat_partition_sectors p) (fat_sectors p)),
       Sdcard_writesector (fat_partition_start p + 6)
         (build_dosbootsector (fat_partition_sectors p) (fat_sectors p)),
       Sdcard_writesector (fat_partition_start p + 1)
         (build_fs_information_sector (fs_clusters p)),
       Sdcard_writesector (fat_partition_start p + 7)
         (build_fs_information_sector (fs_clusters p)),
       Sdcard_writesector (fat_partition_start p + fat1_sector p) build_empty_fat,
       Sdcard_writesector (fat_partition_start p + fat2_sector p) build_empty_fat,
       Sdcard_writesector (fat_partition_start p + rootdir_sector p)
         (build_root_dir volume_name),
       Sdcard_erase (fat_partition_start p + 2) (fat_partition_start p + 5),
       Sdcard_erase (fat_partition_start p + 7) (fat_partition_start p + fat1_sector p - 1),
       Sdcard_erase (fat_partition_start p + fat1_sector p + 1)
         (fat_partition_start p + fat2_sector p - 1),
       Sdcard_erase (fat_partition_start p + fat2_sector p + 1)
         (fat_partition_start p + rootdir_sector p - 1),
       Sdcard_erase (fat_partition_start p + rootdir_sector p + 1)
         (fat_partition_start p + rootdir_sector p + 8) ]"
  by (simp add: format_card_def Let_def build_mega65_sys_sector_def sys_reserved_sectors_def
      sys_slot_size_def sectors_per_cluster_def add.commute add.left_commute)

section \<open>Populating the volume\<close>

lemma write_file_sectors_from:
  assumes len: "unat file_len < 2 ^ 32 - 512"
  shows "unat addr = 512 * k \<Longrightarrow> k + m = unat file_len div 512 + 1 \<Longrightarrow>
         \<exists>evs'. write_file_sectors file_off file_len addr first_sector evs
                  = Some (first_sector + of_nat m, evs @ evs')
                \<and> length evs' = 2 * m"
proof (induction m arbitrary: addr k first_sector evs)
  case 0
  have "unat file_len < unat file_len div 512 * 512 + 512"
    using dividend_less_div_times [of 512 "unat file_len"] by simp
  then have "unat file_len < unat addr" using 0 by simp
  then have "\<not> addr \<le> file_len" by (simp add: word_le_nat_alt)
  then have "write_file_sectors file_off file_len addr first_sector evs
             = Some (first_sector, evs)"
    by (subst write_file_sectors.simps) simp
  then show ?case by simp
next
  case (Suc m)
  have "unat file_len div 512 * 512 \<le> unat file_len" by (rule div_times_less_eq_dividend)
  then have le_nat: "unat addr \<le> unat file_len" using Suc.prems by simp
  then have le: "addr \<le> file_len" by (simp add: word_le_nat_alt)
  have "unat addr + unat (512::u32) < 2 ^ LENGTH(32)" using le_nat len by simp
  then have "unat (addr + 512) = unat addr + unat (512::u32)" by (simp only: unat_add_lem)
  then have next_addr: "unat (addr + 512) = 512 * Suc k" using Suc.prems(1) by simp
  have cnt: "Suc k + m = unat file_len div 512 + 1" using Suc.prems(2) by simp
  from Suc.IH [OF next_addr cnt] obtain evs' where
    run: "write_file_sectors file_off file_len (addr + 512) (first_sector + 1)
            (evs @ [Flash_readsector (file_off + addr), Write_file_sector first_sector])
          = Some (first_sector + 1 + of_nat m,
                  (evs @ [Flash_readsector (file_off + addr), Write_file_sector first_sector])
                  @ evs')"
    and n: "length evs' = 2 * m"
    by blast
  have "write_file_sectors file_off file_len addr first_sector evs
        = Some (first_sector + of_nat (Suc m),
                evs @ ([Flash_readsector (file_off + addr), Write_file_sector first_sector]
                       @ evs'))"
    by (subst write_file_sectors.simps) (simp add: le run add.assoc)
  moreover have "length ([Flash_readsector (file_off + addr), Write_file_sector first_sector]
                       @ evs') = 2 * Suc m"
    using n by simp
  ultimately show ?case by blast
qed

text \<open>Lines 608 to 612 copy \<open>file_len div 512 + 1\<close> sectors, for every length below
  \<open>2 ^ 32 - 512\<close>.\<close>

lemma write_file_sectors_count:
  assumes "unat file_len < 2 ^ 32 - 512"
  shows "\<exists>evs'. write_file_sectors file_off file_len 0 first_sector evs
           = Some (first_sector + of_nat (unat file_len div 512 + 1), evs @ evs')
           \<and> length evs' = 2 * (unat file_len div 512 + 1)"
  using write_file_sectors_from [OF assms, of 0 0 "unat file_len div 512 + 1"] by simp

lemma replicate_11: "replicate 11 x = [x, x, x, x, x, x, x, x, x, x, x]"
  by (simp add: eval_nat_numeral)

lemma list_update_8:
  "[a0, a1, a2, a3, a4, a5, a6, a7, a8, a9, a10][8 := y]
   = [a0, a1, a2, a3, a4, a5, a6, a7, y, a9, a10]"
  and list_update_9:
  "[a0, a1, a2, a3, a4, a5, a6, a7, a8, a9, a10][9 := y]
   = [a0, a1, a2, a3, a4, a5, a6, a7, a8, y, a10]"
  and list_update_10:
  "[a0, a1, a2, a3, a4, a5, a6, a7, a8, a9, a10][10 := y]
   = [a0, a1, a2, a3, a4, a5, a6, a7, a8, a9, y]"
  by (simp_all add: eval_nat_numeral)

lemma eightthree_a_b:
  "make_eightthree [0x41, 0x2e, 0x42]
   = [0x41, 0x20, 0x20, 0x20, 0x20, 0x20, 0x20, 0x20, 0x42, 0x20, 0x20]"
  by (simp add: make_eightthree_def replicate_11 list_update_8)

lemma eightthree_mega65_rom:
  "make_eightthree [0x4d, 0x45, 0x47, 0x41, 0x36, 0x35, 0x2e, 0x52, 0x4f, 0x4d]
   = [0x4d, 0x45, 0x47, 0x41, 0x36, 0x35, 0x20, 0x20, 0x52, 0x4f, 0x4d]"
  by (simp add: make_eightthree_def replicate_11 list_update_8 list_update_9 list_update_10)

lemma populate_loop_2:
  "populate_loop alloc flash p slot_size slot 2 st =
     (case populate_one alloc flash p slot_size slot st of
        None \<Rightarrow> None
      | Some st' \<Rightarrow> populate_one alloc flash p slot_size slot st')"
  by (simp add: numeral_2_eq_2 split: option.splits)

text \<open>When the allocator returns 0 the round writes nothing, records the error line and
  goes on to the next header.\<close>

lemma populate_one_alloc_failure:
  assumes "0 \<in> set (take 256 (drop 8 (flash (cur_file_offset st))))"
    and "alloc (alloc_state st)
           (make_eightthree (takeWhile (\<lambda>ch. ch \<noteq> 0) (drop 8 (flash (cur_file_offset st)))))
           (le32_at (flash (cur_file_offset st)) 4)
           (fat_partition_start p + rootdir_sector p)
           (fat_partition_start p + fat1_sector p)
           (fat_partition_start p + fat2_sector p) = (0, a)"
  shows "\<exists>st'. populate_one alloc flash p slot_size slot st = Some st'
           \<and> cur_file_offset st' = ucast slot * slot_size + le32_at (flash (cur_file_offset st)) 0
           \<and> events st' = events st @
                 [Flash_readsector (cur_file_offset st),
                  Create_contiguous_file
                    (make_eightthree
                       (takeWhile (\<lambda>ch. ch \<noteq> 0) (drop 8 (flash (cur_file_offset st)))))
                    (le32_at (flash (cur_file_offset st)) 4)
                    (fat_partition_start p + rootdir_sector p)
                    (fat_partition_start p + fat1_sector p)
                    (fat_partition_start p + fat2_sector p),
                  Error_writing_file]"
  using assms by (simp add: populate_one_def Let_def)

text \<open>
  Claim C9, evaluated on a slot with two files: \<^verbatim>\<open>A.B\<close> of 512 bytes, with its header
  at flash offset \<open>0x1000\<close> and its 512 bytes from \<open>0x1028\<close>, and \<^verbatim>\<open>MEGA65.ROM\<close> of
  1000 bytes, with its header at \<open>0x1228\<close>; the allocator returns sector \<open>0x8000\<close> for
  the first file and \<open>0x8008\<close> for the second. The allocator is called once per file, in
  the order of the files, and the sectors of each file go to consecutive sectors from the
  returned one. For the file of 512 bytes two sectors are copied, to \<open>0x8000\<close> and
  \<open>0x8001\<close>: the second is read at \<open>0x1228\<close>, after the end of the file. For the
  file of 1000 bytes two sectors are copied.
\<close>

theorem populate_two_files:
  "populate_file_system
     (\<lambda>(n::nat) name len rootdir fat1 fat2. (if n = 0 then 0x8000 else 0x8008, Suc n))
     (\<lambda>off. if off = 0x1000
        then [0x28, 0x12, 0x00, 0x00, 0x00, 0x02, 0x00, 0x00, 0x41, 0x2e, 0x42, 0x00]
             @ replicate 500 0
        else if off = 0x1228
        then [0x38, 0x16, 0x00, 0x00, 0xe8, 0x03, 0x00, 0x00,
              0x4d, 0x45, 0x47, 0x41, 0x36, 0x35, 0x2e, 0x52, 0x4f, 0x4d, 0x00]
             @ replicate 493 0
        else replicate 512 0)
     \<lparr> sys_partition_start = 11329536, sys_partition_sectors = 4194304,
       fat_partition_start = 2048, fat_partition_sectors = 11327488,
       fs_clusters = 1413107, fat_sectors = 11040, fat1_sector = 568,
       fat2_sector = 11608, rootdir_sector = 22648, fs_data_sectors = 11304856 \<rparr>
     0x800000
     \<lparr> version = [0x31], file_count = 2, file_offset = 0x1000 \<rparr>
     0
     \<lparr> cur_file_offset = 0, have_rom = False, events = [], alloc_state = 0 \<rparr>
   = Some (0,
       \<lparr> cur_file_offset = 0x1638, have_rom = True,
         events =
           [ Flash_readsector 0x1000,
             Create_contiguous_file
               [0x41, 0x20, 0x20, 0x20, 0x20, 0x20, 0x20, 0x20, 0x42, 0x20, 0x20]
               512 24696 2616 13656,
             Flash_readsector 0x1028, Write_file_sector 0x8000,
             Flash_readsector 0x1228, Write_file_sector 0x8001,
             Flash_readsector 0x1228,
             Create_contiguous_file
               [0x4d, 0x45, 0x47, 0x41, 0x36, 0x35, 0x20, 0x20, 0x52, 0x4f, 0x4d]
               1000 24696 2616 13656,
             Flash_readsector 0x1250, Write_file_sector 0x8008,
             Flash_readsector 0x1450, Write_file_sector 0x8009 ],
         alloc_state = 2 \<rparr>)"
  by (simp add: populate_file_system_def populate_loop_2 populate_one_def Let_def le32_at_def
      eightthree_a_b eightthree_mega65_rom mega65_rom_name_def write_file_sectors.simps)

end
